theory Spec2Isabelle
  imports Complex_Main "HOL-Library.AList"
begin

section \<open>Python values, documents and builtins\<close>

text \<open>
  A stored document is a Python \<open>dict\<close> from field names to values. The values are the
  ones a document of the store can hold. A Python \<open>float\<close> is modelled by the real number
  it denotes (NaN and the infinities are left out, and \<open>float\<close> of an \<open>int\<close> is exact).
  Strings are byte strings in UTF-8.
\<close>

datatype pyval =
    PNone
  | PBool bool
  | PInt int
  | PFloat real
  | PStr string
  | PList "pyval list"
  | PObjectId string
  | PDatetime int

type_synonym document = "(string \<times> pyval) list"

datatype py_exn =
    TypeError
  | ValueError
  | IndexError
  | ValidationError "string list"
  | StoreUnavailable
  | StoreWriteError

text \<open>
  The answer of an endpoint that does not succeed: a request rejected by the declared
  shape (FastAPI's 422, with the location of each offending field), or the
  \<open>HTTPException(status_code=500, detail=str(e))\<close> of the handlers, which carries the
  exception it was made from.
\<close>

datatype http_error =
    InvalidInput "string list"
  | InternalError py_exn

text \<open>
  The text processing of the interpreter and of pydantic, which the repository calls
  and does not define: the \<open>repr\<close> of a number, list or datetime, the parsing of a
  number out of a string, and the validators of \<open>EmailStr\<close> and \<open>HttpUrl\<close>, which
  return the normalised text of an accepted value. The handlers are defined for any
  such functions.
\<close>

record library =
  repr_of :: "pyval \<Rightarrow> string"
  float_of_str :: "string \<Rightarrow> real option"
  int_of_str :: "string \<Rightarrow> int option"
  email_str :: "string \<Rightarrow> string option"
  http_url :: "string \<Rightarrow> string option"

text \<open>\<open>d.get(k)\<close> and \<open>d.get(k, default)\<close>.\<close>

definition dict_get :: "document \<Rightarrow> string \<Rightarrow> pyval" where
  "dict_get d k = (case map_of d k of None \<Rightarrow> PNone | Some v \<Rightarrow> v)"

definition dict_get_default :: "document \<Rightarrow> string \<Rightarrow> pyval \<Rightarrow> pyval" where
  "dict_get_default d k dflt = (case map_of d k of None \<Rightarrow> dflt | Some v \<Rightarrow> v)"

text \<open>Truth value of a Python object, as \<open>bool(x)\<close>, \<open>if x:\<close> and \<open>x or y\<close> test it.\<close>

fun py_bool :: "pyval \<Rightarrow> bool" where
  "py_bool PNone = False"
| "py_bool (PBool b) = b"
| "py_bool (PInt i) = (i \<noteq> 0)"
| "py_bool (PFloat r) = (r \<noteq> 0)"
| "py_bool (PStr s) = (s \<noteq> [])"
| "py_bool (PList xs) = (xs \<noteq> [])"
| "py_bool (PObjectId h) = True"
| "py_bool (PDatetime t) = True"

definition py_or :: "pyval \<Rightarrow> pyval \<Rightarrow> pyval" where
  "py_or x y = (if py_bool x then x else y)"

text \<open>\<open>x[0]\<close>: the first element of a list, the first character of a string.\<close>

fun py_index0 :: "pyval \<Rightarrow> py_exn + pyval" where
  "py_index0 (PList []) = Inl IndexError"
| "py_index0 (PList (x # xs)) = Inr x"
| "py_index0 (PStr []) = Inl IndexError"
| "py_index0 (PStr (c # cs)) = Inr (PStr [c])"
| "py_index0 v = Inl TypeError"

fun py_str :: "library \<Rightarrow> pyval \<Rightarrow> string" where
  "py_str lib (PStr s) = s"
| "py_str lib (PObjectId h) = h"
| "py_str lib PNone = ''None''"
| "py_str lib (PBool b) = (if b then ''True'' else ''False'')"
| "py_str lib v = repr_of lib v"

fun py_float :: "library \<Rightarrow> pyval \<Rightarrow> py_exn + real" where
  "py_float lib (PFloat r) = Inr r"
| "py_float lib (PInt i) = Inr (of_int i)"
| "py_float lib (PBool b) = Inr (if b then 1 else 0)"
| "py_float lib (PStr s) = (case float_of_str lib s of None \<Rightarrow> Inl ValueError | Some r \<Rightarrow> Inr r)"
| "py_float lib v = Inl TypeError"

fun py_int :: "library \<Rightarrow> pyval \<Rightarrow> py_exn + int" where
  "py_int lib (PInt i) = Inr i"
| "py_int lib (PFloat r) = Inr (if 0 \<le> r then \<lfloor>r\<rfloor> else \<lceil>r\<rceil>)"
| "py_int lib (PBool b) = Inr (if b then 1 else 0)"
| "py_int lib (PStr s) = (case int_of_str lib s of None \<Rightarrow> Inl ValueError | Some i \<Rightarrow> Inr i)"
| "py_int lib v = Inl TypeError"

section \<open>The master summary (main.py: MasterOut and its serializer)\<close>

record MasterOut =
  mo_id :: string
  mo_name :: string
  mo_role :: "string option"
  mo_rating :: real
  mo_reviews_count :: int
  mo_city :: "string option"
  mo_avatar :: "string option"
  mo_verified :: bool

text \<open>
  The validation of the constructor's arguments against the declared field types:
  a \<open>str\<close> field takes a string, an \<open>Optional[str]\<close> field a string or \<open>None\<close>. The
  \<open>ValidationError\<close> names every field that fails.
\<close>

fun is_str :: "pyval \<Rightarrow> bool" where
  "is_str (PStr s) = True"
| "is_str v = False"

fun is_opt_str :: "pyval \<Rightarrow> bool" where
  "is_opt_str PNone = True"
| "is_opt_str (PStr s) = True"
| "is_opt_str v = False"

fun the_str :: "pyval \<Rightarrow> string" where
  "the_str (PStr s) = s"
| "the_str v = []"

fun the_opt_str :: "pyval \<Rightarrow> string option" where
  "the_opt_str (PStr s) = Some s"
| "the_opt_str v = None"

definition MasterOut_errors :: "pyval \<Rightarrow> pyval \<Rightarrow> pyval \<Rightarrow> pyval \<Rightarrow> string list" where
  "MasterOut_errors n r c a =
     (if is_str n then [] else [''name'']) @
     (if is_opt_str r then [] else [''role'']) @
     (if is_opt_str c then [] else [''city'']) @
     (if is_opt_str a then [] else [''avatar''])"

definition MasterOut_new ::
  "string \<Rightarrow> pyval \<Rightarrow> pyval \<Rightarrow> real \<Rightarrow> int \<Rightarrow> pyval \<Rightarrow> pyval \<Rightarrow> bool \<Rightarrow> py_exn + MasterOut" where
  "MasterOut_new i n r rt rc c a v =
     (if MasterOut_errors n r c a = []
      then Inr \<lparr>mo_id = i, mo_name = the_str n, mo_role = the_opt_str r, mo_rating = rt,
                mo_reviews_count = rc, mo_city = the_opt_str c, mo_avatar = the_opt_str a,
                mo_verified = v\<rparr>
      else Inl (ValidationError (MasterOut_errors n r c a)))"

text \<open>
  The arguments are evaluated in the order they are written, so the first one that
  raises decides the exception; the constructor validates last.
\<close>

definition serialize_master :: "library \<Rightarrow> document \<Rightarrow> py_exn + MasterOut" where
  "serialize_master lib doc =
     (case py_index0 (py_or (dict_get doc ''skills'') (PList [PNone])) of
        Inl e \<Rightarrow> Inl e
      | Inr role \<Rightarrow>
     (case py_float lib (dict_get_default doc ''rating'' (PInt 0)) of
        Inl e \<Rightarrow> Inl e
      | Inr rating \<Rightarrow>
     (case py_int lib (dict_get_default doc ''reviews_count'' (PInt 0)) of
        Inl e \<Rightarrow> Inl e
      | Inr reviews_count \<Rightarrow>
          MasterOut_new
            (py_str lib (dict_get doc ''_id''))
            (dict_get_default doc ''name'' (PStr ''''))
            role
            rating
            reviews_count
            (dict_get doc ''city'')
            (dict_get doc ''avatar'')
            (py_bool (dict_get_default doc ''verified'' (PBool False))))))"

section \<open>The declared shapes (schemas.py)\<close>

text \<open>
  A validated \<open>Master\<close>, \<open>Client\<close> and \<open>Booking\<close>. An \<open>HttpUrl\<close> and an \<open>EmailStr\<close>
  are kept as their text. A \<open>datetime\<close> is kept as its count of microseconds.
\<close>

record Master =
  m_name :: string
  m_email :: "string option"
  m_phone :: "string option"
  m_city :: "string option"
  m_bio :: "string option"
  m_avatar :: "string option"
  m_skills :: "string list"
  m_rating :: real
  m_reviews_count :: int

record Client =
  c_name :: string
  c_email :: string
  c_phone :: "string option"
  c_avatar :: "string option"

record Booking =
  b_master_id :: string
  b_client_id :: string
  b_service_id :: string
  b_datetime_utc :: int
  b_status :: string
  b_notes :: "string option"

text \<open>
  A request body for the \<open>Master\<close> shape, each field of the JSON type the shape
  declares, \<open>None\<close> where the body leaves the field out.
\<close>

record Master_body =
  mb_name :: "string option"
  mb_email :: "string option"
  mb_phone :: "string option"
  mb_city :: "string option"
  mb_bio :: "string option"
  mb_avatar :: "string option"
  mb_skills :: "string list option"
  mb_rating :: "real option"
  mb_reviews_count :: "int option"

text \<open>A field with a validator: left out, accepted (normalised) or refused.\<close>

definition opt_valid :: "(string \<Rightarrow> string option) \<Rightarrow> string option \<Rightarrow> bool" where
  "opt_valid chk x = (case x of None \<Rightarrow> True | Some s \<Rightarrow> chk s \<noteq> None)"

definition opt_norm :: "(string \<Rightarrow> string option) \<Rightarrow> string option \<Rightarrow> string option" where
  "opt_norm chk x = (case x of None \<Rightarrow> None | Some s \<Rightarrow> chk s)"

text \<open>
  The fields of \<open>Master\<close> in the order of their declaration, with \<open>Field(...)\<close> for a
  required field, the defaults \<open>None\<close>, \<open>list\<close>, \<open>0\<close> and \<open>0\<close>, and the bounds
  \<open>ge=0, le=5\<close> of \<open>rating\<close> and \<open>ge=0\<close> of \<open>reviews_count\<close>. The default of a field is
  not validated.
\<close>

definition Master_errors :: "library \<Rightarrow> Master_body \<Rightarrow> string list" where
  "Master_errors lib b =
     (if mb_name b = None then [''name''] else []) @
     (if opt_valid (email_str lib) (mb_email b) then [] else [''email'']) @
     (if opt_valid (http_url lib) (mb_avatar b) then [] else [''avatar'']) @
     (case mb_rating b of None \<Rightarrow> [] | Some r \<Rightarrow> if 0 \<le> r \<and> r \<le> 5 then [] else [''rating'']) @
     (case mb_reviews_count b of None \<Rightarrow> [] | Some n \<Rightarrow> if 0 \<le> n then [] else [''reviews_count''])"

definition Master_validate :: "library \<Rightarrow> Master_body \<Rightarrow> string list + Master" where
  "Master_validate lib b =
     (if Master_errors lib b = []
      then Inr \<lparr>m_name = the (mb_name b),
                m_email = opt_norm (email_str lib) (mb_email b),
                m_phone = mb_phone b,
                m_city = mb_city b,
                m_bio = mb_bio b,
                m_avatar = opt_norm (http_url lib) (mb_avatar b),
                m_skills = (case mb_skills b of None \<Rightarrow> [] | Some xs \<Rightarrow> xs),
                m_rating = (case mb_rating b of None \<Rightarrow> 0 | Some r \<Rightarrow> r),
                m_reviews_count = (case mb_reviews_count b of None \<Rightarrow> 0 | Some n \<Rightarrow> n)\<rparr>
      else Inl (Master_errors lib b))"

text \<open>
  \<open>Client(name=..., email=...)\<close> as the booking handler builds it, from an address that
  \<open>EmailStr\<close> has accepted already: validating a normalised address again returns it.
\<close>

definition Client_new :: "string \<Rightarrow> string \<Rightarrow> Client" where
  "Client_new n e = \<lparr>c_name = n, c_email = e, c_phone = None, c_avatar = None\<rparr>"

definition booking_statuses :: "string list" where
  "booking_statuses = [''pending'', ''confirmed'', ''completed'', ''cancelled'']"

definition Booking_new ::
  "string \<Rightarrow> string \<Rightarrow> string \<Rightarrow> int \<Rightarrow> string \<Rightarrow> string option \<Rightarrow> py_exn + Booking" where
  "Booking_new mid cid sid dt st nt =
     (if st \<in> set booking_statuses
      then Inr \<lparr>b_master_id = mid, b_client_id = cid, b_service_id = sid,
                b_datetime_utc = dt, b_status = st, b_notes = nt\<rparr>
      else Inl (ValidationError [''status'']))"

section \<open>The document store gateway\<close>

datatype entity = EMaster Master | EClient Client | EBooking Booking

fun opt_val :: "string option \<Rightarrow> pyval" where
  "opt_val None = PNone"
| "opt_val (Some s) = PStr s"

text \<open>
  The module \<open>database\<close> (\<open>create_document\<close>, \<open>get_documents\<close>) is not among the sources;
  the definitions of this section follow section 4.2 of the spec.
\<close>

text \<open>
  Modelled from the spec: the storage representation of a record, which \<open>create_document\<close>
  of the missing module \<open>database\<close> builds (insert "converts it to the storage
  representation"). It is the dict of the fields of the record, an optional field that is
  not set being \<open>None\<close>.
\<close>

fun to_document :: "entity \<Rightarrow> document" where
  "to_document (EMaster m) =
     [(''name'', PStr (m_name m)), (''email'', opt_val (m_email m)),
      (''phone'', opt_val (m_phone m)), (''city'', opt_val (m_city m)),
      (''bio'', opt_val (m_bio m)), (''avatar'', opt_val (m_avatar m)),
      (''skills'', PList (map PStr (m_skills m))), (''rating'', PFloat (m_rating m)),
      (''reviews_count'', PInt (m_reviews_count m))]"
| "to_document (EClient c) =
     [(''name'', PStr (c_name c)), (''email'', PStr (c_email c)),
      (''phone'', opt_val (c_phone c)), (''avatar'', opt_val (c_avatar c))]"
| "to_document (EBooking b) =
     [(''master_id'', PStr (b_master_id b)), (''client_id'', PStr (b_client_id b)),
      (''service_id'', PStr (b_service_id b)), (''datetime_utc'', PDatetime (b_datetime_utc b)),
      (''status'', PStr (b_status b)), (''notes'', opt_val (b_notes b))]"

text \<open>
  Modelled from the spec: the state behind the missing module \<open>database\<close>. The store holds
  the documents of all collections in insertion order, each with the name of its
  collection, and is available or not ("if the connection fails, the gateway enters a
  degraded unavailable state"). The write failures of the engine are an input:
  \<open>write_faults\<close> says, for the writes to come, which ones fail.
\<close>

record store =
  available :: bool
  documents :: "(string \<times> document) list"
  next_id :: nat
  write_faults :: "bool list"

text \<open>
  Modelled from the spec: the "store-assigned unique identifier" of the missing module
  \<open>database\<close>, for the \<open>n\<close>-th record of the store the number \<open>n\<close> in decimal.
\<close>

fun decimal :: "nat \<Rightarrow> string" where
  "decimal n =
     (if n < 10 then [''0123456789'' ! n]
      else decimal (n div 10) @ [''0123456789'' ! (n mod 10)])"

text \<open>Modelled from the spec: the records of one "named collection", in insertion order.\<close>

definition collection :: "store \<Rightarrow> string \<Rightarrow> document list" where
  "collection st kind = map snd (filter (\<lambda>kd. fst kd = kind) (documents st))"

text \<open>
  Modelled from the spec: \<open>create_document\<close> of the missing module \<open>database\<close>, the insert
  of section 4.2. It "appends it to the named collection; returns a store-assigned unique
  identifier", and fails with StoreUnavailable "if no connection exists" or StoreWriteError
  "on any underlying write failure". A write that fails leaves the documents as they are.
\<close>

definition create_document :: "string \<Rightarrow> entity \<Rightarrow> store \<Rightarrow> (py_exn + string) \<times> store" where
  "create_document kind e st =
     (if \<not> available st then (Inl StoreUnavailable, st)
      else if write_faults st \<noteq> [] \<and> hd (write_faults st)
      then (Inl StoreWriteError, st\<lparr>write_faults := tl (write_faults st)\<rparr>)
      else (Inr (decimal (next_id st)),
            st\<lparr>documents :=
                 documents st @ [(kind, (''_id'', PObjectId (decimal (next_id st))) # to_document e)],
               next_id := Suc (next_id st),
               write_faults := tl (write_faults st)\<rparr>))"

text \<open>
  Modelled from the spec: the filter of find, a "mapping from field to exact-match value":
  "only equality predicates over top-level fields".
\<close>

definition matches :: "document \<Rightarrow> document \<Rightarrow> bool" where
  "matches flt d = list_all (\<lambda>kv. map_of d (fst kv) = Some (snd kv)) flt"

text \<open>
  Modelled from the spec: \<open>get_documents\<close> of the missing module \<open>database\<close>, the find of
  section 4.2. It returns at most \<open>limit\<close> matching records in insertion order, "fails with
  StoreUnavailable if not connected; returns an empty sequence (never an error) when no
  records match".
\<close>

definition get_documents :: "string \<Rightarrow> document \<Rightarrow> int \<Rightarrow> store \<Rightarrow> py_exn + document list" where
  "get_documents kind flt limit st =
     (if \<not> available st then Inl StoreUnavailable
      else Inr (take (nat limit) (filter (matches flt) (collection st kind))))"

section \<open>The masters API (main.py)\<close>

text \<open>A list comprehension over calls that may raise: the first exception ends it.\<close>

fun serialize_all :: "library \<Rightarrow> document list \<Rightarrow> py_exn + MasterOut list" where
  "serialize_all lib [] = Inr []"
| "serialize_all lib (d # ds) =
     (case serialize_master lib d of
        Inl e \<Rightarrow> Inl e
      | Inr x \<Rightarrow> (case serialize_all lib ds of Inl e \<Rightarrow> Inl e | Inr xs \<Rightarrow> Inr (x # xs)))"

text \<open>\<open>if city:\<close> holds for a string that is given and not empty.\<close>

fun str_filter :: "string \<Rightarrow> string option \<Rightarrow> document" where
  "str_filter k None = []"
| "str_filter k (Some s) = (if s \<noteq> [] then [(k, PStr s)] else [])"

definition list_masters ::
  "library \<Rightarrow> string option \<Rightarrow> int \<Rightarrow> store \<Rightarrow> http_error + MasterOut list" where
  "list_masters lib city limit st =
     (case get_documents ''master'' (str_filter ''city'' city) limit st of
        Inl e \<Rightarrow> Inl (InternalError e)
      | Inr docs \<Rightarrow>
          (case serialize_all lib docs of
             Inl e \<Rightarrow> Inl (InternalError e)
           | Inr outs \<Rightarrow> Inr outs))"

definition create_master :: "Master \<Rightarrow> store \<Rightarrow> (http_error + string) \<times> store" where
  "create_master master st =
     (case create_document ''master'' (EMaster master) st of
        (Inl e, st') \<Rightarrow> (Inl (InternalError e), st')
      | (Inr new_id, st') \<Rightarrow> (Inr new_id, st'))"

text \<open>
  The Cyrillic strings of the seed endpoint, as their UTF-8 bytes: the names, cities and
  skills of the three sample masters, in the order of the source.
\<close>

definition anna_petrova :: string where
  "anna_petrova =
     [CHR 0xD0, CHR 0x90, CHR 0xD0, CHR 0xBD, CHR 0xD0, CHR 0xBD, CHR 0xD0, CHR 0xB0,
      CHR 0x20, CHR 0xD0, CHR 0x9F, CHR 0xD0, CHR 0xB5, CHR 0xD1, CHR 0x82, CHR 0xD1,
      CHR 0x80, CHR 0xD0, CHR 0xBE, CHR 0xD0, CHR 0xB2, CHR 0xD0, CHR 0xB0]"

definition moscow :: string where
  "moscow =
     [CHR 0xD0, CHR 0x9C, CHR 0xD0, CHR 0xBE, CHR 0xD1, CHR 0x81, CHR 0xD0, CHR 0xBA,
      CHR 0xD0, CHR 0xB2, CHR 0xD0, CHR 0xB0]"

definition visagiste :: string where
  "visagiste =
     [CHR 0xD0, CHR 0x92, CHR 0xD0, CHR 0xB8, CHR 0xD0, CHR 0xB7, CHR 0xD0, CHR 0xB0,
      CHR 0xD0, CHR 0xB6, CHR 0xD0, CHR 0xB8, CHR 0xD1, CHR 0x81, CHR 0xD1, CHR 0x82]"

definition irina_smirnova :: string where
  "irina_smirnova =
     [CHR 0xD0, CHR 0x98, CHR 0xD1, CHR 0x80, CHR 0xD0, CHR 0xB8, CHR 0xD0, CHR 0xBD,
      CHR 0xD0, CHR 0xB0, CHR 0x20, CHR 0xD0, CHR 0xA1, CHR 0xD0, CHR 0xBC, CHR 0xD0,
      CHR 0xB8, CHR 0xD1, CHR 0x80, CHR 0xD0, CHR 0xBD, CHR 0xD0, CHR 0xBE, CHR 0xD0,
      CHR 0xB2, CHR 0xD0, CHR 0xB0]"

definition saint_petersburg :: string where
  "saint_petersburg =
     [CHR 0xD0, CHR 0xA1, CHR 0xD0, CHR 0xB0, CHR 0xD0, CHR 0xBD, CHR 0xD0, CHR 0xBA,
      CHR 0xD1, CHR 0x82, CHR 0x2D, CHR 0xD0, CHR 0x9F, CHR 0xD0, CHR 0xB5, CHR 0xD1,
      CHR 0x82, CHR 0xD0, CHR 0xB5, CHR 0xD1, CHR 0x80, CHR 0xD0, CHR 0xB1, CHR 0xD1,
      CHR 0x83, CHR 0xD1, CHR 0x80, CHR 0xD0, CHR 0xB3]"

definition manicurist :: string where
  "manicurist =
     [CHR 0xD0, CHR 0x9C, CHR 0xD0, CHR 0xB0, CHR 0xD1, CHR 0x81, CHR 0xD1, CHR 0x82,
      CHR 0xD0, CHR 0xB5, CHR 0xD1, CHR 0x80, CHR 0x20, CHR 0xD0, CHR 0xBC, CHR 0xD0,
      CHR 0xB0, CHR 0xD0, CHR 0xBD, CHR 0xD0, CHR 0xB8, CHR 0xD0, CHR 0xBA, CHR 0xD1,
      CHR 0x8E, CHR 0xD1, CHR 0x80, CHR 0xD0, CHR 0xB0]"

definition maria_ivanova :: string where
  "maria_ivanova =
     [CHR 0xD0, CHR 0x9C, CHR 0xD0, CHR 0xB0, CHR 0xD1, CHR 0x80, CHR 0xD0, CHR 0xB8,
      CHR 0xD1, CHR 0x8F, CHR 0x20, CHR 0xD0, CHR 0x98, CHR 0xD0, CHR 0xB2, CHR 0xD0,
      CHR 0xB0, CHR 0xD0, CHR 0xBD, CHR 0xD0, CHR 0xBE, CHR 0xD0, CHR 0xB2, CHR 0xD0,
      CHR 0xB0]"

definition kazan :: string where
  "kazan =
     [CHR 0xD0, CHR 0x9A, CHR 0xD0, CHR 0xB0, CHR 0xD0, CHR 0xB7, CHR 0xD0, CHR 0xB0,
      CHR 0xD0, CHR 0xBD, CHR 0xD1, CHR 0x8C]"

definition hair_stylist :: string where
  "hair_stylist =
     [CHR 0xD0, CHR 0x9F, CHR 0xD0, CHR 0xB0, CHR 0xD1, CHR 0x80, CHR 0xD0, CHR 0xB8,
      CHR 0xD0, CHR 0xBA, CHR 0xD0, CHR 0xBC, CHR 0xD0, CHR 0xB0, CHR 0xD1, CHR 0x85,
      CHR 0xD0, CHR 0xB5, CHR 0xD1, CHR 0x80, CHR 0x2D, CHR 0xD1, CHR 0x81, CHR 0xD1,
      CHR 0x82, CHR 0xD0, CHR 0xB8, CHR 0xD0, CHR 0xBB, CHR 0xD0, CHR 0xB8, CHR 0xD1,
      CHR 0x81, CHR 0xD1, CHR 0x82]"

text \<open>The avatar URLs of the three sample masters.\<close>

definition anna_avatar :: string where
  "anna_avatar =
     ''https://images.unsplash.com/photo-1527980965255-d3b416303d12?q=80&w=300&auto=format&fit=crop''"

definition irina_avatar :: string where
  "irina_avatar =
     ''https://images.unsplash.com/photo-1544005313-94ddf0286df2?q=80&w=300&auto=format&fit=crop''"

definition maria_avatar :: string where
  "maria_avatar =
     ''https://images.unsplash.com/photo-1502685104226-ee32379fefbe?q=80&w=300&auto=format&fit=crop''"

text \<open>
  The three sample masters of the seed endpoint, as the keyword arguments of their
  constructors.
\<close>

definition sample :: "Master_body list" where
  "sample =
     [\<lparr>mb_name = Some anna_petrova, mb_email = None, mb_phone = None,
       mb_city = Some moscow, mb_bio = None,
       mb_avatar = Some anna_avatar,
       mb_skills = Some [visagiste], mb_rating = Some 4.9, mb_reviews_count = Some 182\<rparr>,
      \<lparr>mb_name = Some irina_smirnova, mb_email = None, mb_phone = None,
       mb_city = Some saint_petersburg, mb_bio = None,
       mb_avatar = Some irina_avatar,
       mb_skills = Some [manicurist], mb_rating = Some 4.8, mb_reviews_count = Some 240\<rparr>,
      \<lparr>mb_name = Some maria_ivanova, mb_email = None, mb_phone = None,
       mb_city = Some kazan, mb_bio = None,
       mb_avatar = Some maria_avatar,
       mb_skills = Some [hair_stylist], mb_rating = Some 5.0, mb_reviews_count = Some 320\<rparr>]"

fun validate_all :: "library \<Rightarrow> Master_body list \<Rightarrow> string list + Master list" where
  "validate_all lib [] = Inr []"
| "validate_all lib (b # bs) =
     (case Master_validate lib b of
        Inl errs \<Rightarrow> Inl errs
      | Inr m \<Rightarrow> (case validate_all lib bs of Inl errs \<Rightarrow> Inl errs | Inr ms \<Rightarrow> Inr (m # ms)))"

fun create_all :: "Master list \<Rightarrow> store \<Rightarrow> (py_exn + string list) \<times> store" where
  "create_all [] st = (Inr [], st)"
| "create_all (m # ms) st =
     (case create_document ''master'' (EMaster m) st of
        (Inl e, st') \<Rightarrow> (Inl e, st')
      | (Inr i, st') \<Rightarrow>
          (case create_all ms st' of
             (Inl e, st'') \<Rightarrow> (Inl e, st'')
           | (Inr ids, st'') \<Rightarrow> (Inr (i # ids), st'')))"

text \<open>
  The samples are constructed before the \<open>try\<close>: a sample that its own shape refuses
  leaves the handler as a \<open>ValidationError\<close>, which the server answers with status 500.
  The result is the pair of \<open>inserted\<close> and \<open>ids\<close>.
\<close>

definition seed_demo_data :: "library \<Rightarrow> store \<Rightarrow> (http_error + nat \<times> string list) \<times> store" where
  "seed_demo_data lib st =
     (case validate_all lib sample of
        Inl errs \<Rightarrow> (Inl (InternalError (ValidationError errs)), st)
      | Inr ms \<Rightarrow>
          (case create_all ms st of
             (Inl e, st') \<Rightarrow> (Inl (InternalError e), st')
           | (Inr ids, st') \<Rightarrow> (Inr (length ids, ids), st')))"

section \<open>The booking API (main.py)\<close>

record BookingRequest =
  rq_master_id :: string
  rq_name :: string
  rq_email :: string
  rq_datetime_utc :: int
  rq_notes :: "string option"

record BookingOut =
  bo_id :: string
  bo_status :: string

definition create_booking :: "BookingRequest \<Rightarrow> store \<Rightarrow> (http_error + BookingOut) \<times> store" where
  "create_booking req st =
     (case create_document ''client'' (EClient (Client_new (rq_name req) (rq_email req))) st of
        (Inl e, st1) \<Rightarrow> (Inl (InternalError e), st1)
      | (Inr client_id, st1) \<Rightarrow>
          (case Booking_new (rq_master_id req) client_id ''unknown'' (rq_datetime_utc req)
                  ''pending'' (rq_notes req) of
             Inl e \<Rightarrow> (Inl (InternalError e), st1)
           | Inr booking \<Rightarrow>
               (case create_document ''booking'' (EBooking booking) st1 of
                  (Inl e, st2) \<Rightarrow> (Inl (InternalError e), st2)
                | (Inr booking_id, st2) \<Rightarrow>
                    (Inr \<lparr>bo_id = booking_id, bo_status = ''pending''\<rparr>, st2))))"

text \<open>\<open>d["id"] = str(d.pop("_id", ""))\<close> on one document.\<close>

definition sanitize_id :: "library \<Rightarrow> document \<Rightarrow> document" where
  "sanitize_id lib d =
     AList.update ''id'' (PStr (py_str lib (dict_get_default d ''_id'' (PStr []))))
       (AList.delete ''_id'' d)"

definition list_bookings ::
  "library \<Rightarrow> string option \<Rightarrow> int \<Rightarrow> store \<Rightarrow> http_error + document list" where
  "list_bookings lib master_id limit st =
     (case get_documents ''booking'' (str_filter ''master_id'' master_id) limit st of
        Inl e \<Rightarrow> Inl (InternalError e)
      | Inr docs \<Rightarrow> Inr (map (sanitize_id lib) docs))"

section \<open>The endpoints: validation of the request, then the handler\<close>

text \<open>
  \<open>Query(default=d, ge=lo, le=hi)\<close> on an \<open>int\<close> parameter: the default when the query
  leaves it out, a refusal naming the parameter when the value is out of the bounds.
\<close>

definition query_int :: "string \<Rightarrow> int \<Rightarrow> int \<Rightarrow> int \<Rightarrow> int option \<Rightarrow> http_error + int" where
  "query_int name dflt lo hi given =
     (case given of
        None \<Rightarrow> Inr dflt
      | Some n \<Rightarrow> if lo \<le> n \<and> n \<le> hi then Inr n else Inl (InvalidInput [name]))"

definition GET_api_masters ::
  "library \<Rightarrow> string option \<Rightarrow> int option \<Rightarrow> store \<Rightarrow> http_error + MasterOut list" where
  "GET_api_masters lib city limit st =
     (case query_int ''limit'' 12 1 100 limit of
        Inl err \<Rightarrow> Inl err
      | Inr n \<Rightarrow> list_masters lib city n st)"

definition GET_api_bookings ::
  "library \<Rightarrow> string option \<Rightarrow> int option \<Rightarrow> store \<Rightarrow> http_error + document list" where
  "GET_api_bookings lib master_id limit st =
     (case query_int ''limit'' 50 1 200 limit of
        Inl err \<Rightarrow> Inl err
      | Inr n \<Rightarrow> list_bookings lib master_id n st)"

definition POST_api_masters ::
  "library \<Rightarrow> Master_body \<Rightarrow> store \<Rightarrow> (http_error + string) \<times> store" where
  "POST_api_masters lib body st =
     (case Master_validate lib body of
        Inl errs \<Rightarrow> (Inl (InvalidInput errs), st)
      | Inr master \<Rightarrow> create_master master st)"

text \<open>The body of a booking request: the four required fields and the optional notes.\<close>

record BookingRequest_body =
  rb_master_id :: "string option"
  rb_name :: "string option"
  rb_email :: "string option"
  rb_datetime_utc :: "int option"
  rb_notes :: "string option"

definition BookingRequest_errors :: "library \<Rightarrow> BookingRequest_body \<Rightarrow> string list" where
  "BookingRequest_errors lib b =
     (if rb_master_id b = None then [''master_id''] else []) @
     (if rb_name b = None then [''name''] else []) @
     (case rb_email b of
        None \<Rightarrow> [''email'']
      | Some s \<Rightarrow> if email_str lib s = None then [''email''] else []) @
     (if rb_datetime_utc b = None then [''datetime_utc''] else [])"

definition BookingRequest_validate ::
  "library \<Rightarrow> BookingRequest_body \<Rightarrow> string list + BookingRequest" where
  "BookingRequest_validate lib b =
     (if BookingRequest_errors lib b = []
      then Inr \<lparr>rq_master_id = the (rb_master_id b),
                rq_name = the (rb_name b),
                rq_email = the (email_str lib (the (rb_email b))),
                rq_datetime_utc = the (rb_datetime_utc b),
                rq_notes = rb_notes b\<rparr>
      else Inl (BookingRequest_errors lib b))"

definition POST_api_bookings ::
  "library \<Rightarrow> BookingRequest_body \<Rightarrow> store \<Rightarrow> (http_error + BookingOut) \<times> store" where
  "POST_api_bookings lib body st =
     (case BookingRequest_validate lib body of
        Inl errs \<Rightarrow> (Inl (InvalidInput errs), st)
      | Inr req \<Rightarrow> create_booking req st)"

definition POST_api_seed :: "library \<Rightarrow> store \<Rightarrow> (http_error + nat \<times> string list) \<times> store" where
  "POST_api_seed lib st = seed_demo_data lib st"

section \<open>The schema catalogue (schemas.py: ALL_SCHEMAS, main.py: get_schema)\<close>

text \<open>
  A declared model is its class name and its fields in order, each with its type, its
  default (\<open>None\<close> for a required field) and its bounds.
\<close>

datatype ftype =
    TStr | TEmail | TUrl | TFloat | TInt | TDatetime
  | TList ftype
  | TOptional ftype
  | TLiteral "string list"

datatype bound = Ge int | Le int

record field_decl =
  f_name :: string
  f_type :: ftype
  f_default :: "pyval option"
  f_bounds :: "bound list"

type_synonym model = "string \<times> field_decl list"

definition fld :: "string \<Rightarrow> ftype \<Rightarrow> pyval option \<Rightarrow> bound list \<Rightarrow> field_decl" where
  "fld n t d bs = \<lparr>f_name = n, f_type = t, f_default = d, f_bounds = bs\<rparr>"

definition Master_model :: model where
  "Master_model = (''Master'',
     [fld ''name'' TStr None [],
      fld ''email'' (TOptional TEmail) (Some PNone) [],
      fld ''phone'' (TOptional TStr) (Some PNone) [],
      fld ''city'' (TOptional TStr) (Some PNone) [],
      fld ''bio'' (TOptional TStr) (Some PNone) [],
      fld ''avatar'' (TOptional TUrl) (Some PNone) [],
      fld ''skills'' (TList TStr) (Some (PList [])) [],
      fld ''rating'' TFloat (Some (PInt 0)) [Ge 0, Le 5],
      fld ''reviews_count'' TInt (Some (PInt 0)) [Ge 0]])"

definition Client_model :: model where
  "Client_model = (''Client'',
     [fld ''name'' TStr None [],
      fld ''email'' TEmail None [],
      fld ''phone'' (TOptional TStr) (Some PNone) [],
      fld ''avatar'' (TOptional TUrl) (Some PNone) []])"

definition Service_model :: model where
  "Service_model = (''Service'',
     [fld ''title'' TStr None [],
      fld ''category'' TStr None [],
      fld ''subcategory'' (TOptional TStr) (Some PNone) [],
      fld ''description'' (TOptional TStr) (Some PNone) [],
      fld ''price'' TFloat None [Ge 0],
      fld ''duration_min'' TInt None [Ge 10, Le 480],
      fld ''master_id'' (TOptional TStr) (Some PNone) []])"

definition Booking_model :: model where
  "Booking_model = (''Booking'',
     [fld ''master_id'' TStr None [],
      fld ''client_id'' TStr None [],
      fld ''service_id'' TStr None [],
      fld ''datetime_utc'' TDatetime None [],
      fld ''status'' (TLiteral [''pending'', ''confirmed'', ''completed'', ''cancelled''])
        (Some (PStr ''pending'')) [],
      fld ''notes'' (TOptional TStr) (Some PNone) []])"

definition Review_model :: model where
  "Review_model = (''Review'',
     [fld ''master_id'' TStr None [],
      fld ''client_id'' TStr None [],
      fld ''rating'' TInt None [Ge 1, Le 5],
      fld ''comment'' (TOptional TStr) (Some PNone) []])"

definition Portfolioitem_model :: model where
  "Portfolioitem_model = (''Portfolioitem'',
     [fld ''master_id'' TStr None [],
      fld ''title'' (TOptional TStr) (Some PNone) [],
      fld ''image_url'' TUrl None [],
      fld ''tags'' (TList TStr) (Some (PList [])) []])"

definition ALL_SCHEMAS :: "(string \<times> model) list" where
  "ALL_SCHEMAS =
     [(''master'', Master_model),
      (''client'', Client_model),
      (''service'', Service_model),
      (''booking'', Booking_model),
      (''review'', Review_model),
      (''portfolioitem'', Portfolioitem_model)]"

text \<open>
  \<open>model.model_json_schema()\<close>: the title, the properties in the order of the fields,
  and the names of the required fields.
\<close>

record json_schema =
  js_title :: string
  js_properties :: "(string \<times> field_decl) list"
  js_required :: "string list"

definition model_json_schema :: "model \<Rightarrow> json_schema" where
  "model_json_schema m =
     \<lparr>js_title = fst m,
      js_properties = map (\<lambda>f. (f_name f, f)) (snd m),
      js_required = map f_name (filter (\<lambda>f. f_default f = None) (snd m))\<rparr>"

text \<open>The loop \<open>for name, model in ALL_SCHEMAS.items(): out[name] = ...\<close> from the empty dict.\<close>

fun get_schema_loop ::
  "(string \<times> model) list \<Rightarrow> (string \<times> json_schema) list \<Rightarrow> (string \<times> json_schema) list" where
  "get_schema_loop [] out = out"
| "get_schema_loop ((name, model) # rest) out =
     get_schema_loop rest (AList.update name (model_json_schema model) out)"

definition get_schema :: "(string \<times> json_schema) list" where
  "get_schema = get_schema_loop ALL_SCHEMAS []"

section \<open>Concrete inputs\<close>

text \<open>
  A library to evaluate the handlers with: an address is accepted when it has an
  \<open>@\<close>, a URL when it starts with \<open>http\<close>, both unchanged; no string parses as a number.
\<close>

definition plain_library :: library where
  "plain_library =
     \<lparr>repr_of = (\<lambda>v. ''?''),
      float_of_str = (\<lambda>s. None),
      int_of_str = (\<lambda>s. None),
      email_str = (\<lambda>s. if CHR ''@'' \<in> set s then Some s else None),
      http_url = (\<lambda>s. if take 4 s = ''http'' then Some s else None)\<rparr>"

definition empty_store :: store where
  "empty_store = \<lparr>available = True, documents = [], next_id = 0, write_faults = []\<rparr>"

text \<open>A store without a connection, and one whose second write fails.\<close>

definition down_store :: store where
  "down_store = \<lparr>available = False, documents = [], next_id = 0, write_faults = []\<rparr>"

definition faulty_store :: store where
  "faulty_store = \<lparr>available = True, documents = [], next_id = 0, write_faults = [False, True]\<rparr>"

text \<open>
  The three sample masters as the seed endpoint validates them with the library above,
  their summaries, and the store after the seed endpoint has run on the empty store.
\<close>

definition anna :: Master where
  "anna =
     \<lparr>m_name = anna_petrova, m_email = None, m_phone = None, m_city = Some moscow,
      m_bio = None, m_avatar = Some anna_avatar, m_skills = [visagiste], m_rating = 4.9,
      m_reviews_count = 182\<rparr>"

definition irina :: Master where
  "irina =
     \<lparr>m_name = irina_smirnova, m_email = None, m_phone = None, m_city = Some saint_petersburg,
      m_bio = None, m_avatar = Some irina_avatar, m_skills = [manicurist], m_rating = 4.8,
      m_reviews_count = 240\<rparr>"

definition maria :: Master where
  "maria =
     \<lparr>m_name = maria_ivanova, m_email = None, m_phone = None, m_city = Some kazan,
      m_bio = None, m_avatar = Some maria_avatar, m_skills = [hair_stylist], m_rating = 5.0,
      m_reviews_count = 320\<rparr>"

definition anna_summary :: MasterOut where
  "anna_summary =
     \<lparr>mo_id = ''0'', mo_name = anna_petrova, mo_role = Some visagiste, mo_rating = 4.9,
      mo_reviews_count = 182, mo_city = Some moscow, mo_avatar = Some anna_avatar,
      mo_verified = False\<rparr>"

definition irina_summary :: MasterOut where
  "irina_summary =
     \<lparr>mo_id = ''1'', mo_name = irina_smirnova, mo_role = Some manicurist, mo_rating = 4.8,
      mo_reviews_count = 240, mo_city = Some saint_petersburg, mo_avatar = Some irina_avatar,
      mo_verified = False\<rparr>"

definition seeded_store :: store where
  "seeded_store =
     \<lparr>available = True,
      documents =
        [(''master'', (''_id'', PObjectId ''0'') # to_document (EMaster anna)),
         (''master'', (''_id'', PObjectId ''1'') # to_document (EMaster irina)),
         (''master'', (''_id'', PObjectId ''2'') # to_document (EMaster maria))],
      next_id = 3, write_faults = []\<rparr>"

text \<open>
  The booking request of the spec's example, 2024-06-01T10:00:00Z in microseconds, and
  a master body with a malformed address and a rating out of its bounds.
\<close>

definition jane_body :: BookingRequest_body where
  "jane_body =
     \<lparr>rb_master_id = Some ''abc123'', rb_name = Some ''Jane Doe'',
      rb_email = Some ''jane@example.com'', rb_datetime_utc = Some 1717236000000000,
      rb_notes = None\<rparr>"

definition jane_request :: BookingRequest where
  "jane_request =
     \<lparr>rq_master_id = ''abc123'', rq_name = ''Jane Doe'', rq_email = ''jane@example.com'',
      rq_datetime_utc = 1717236000000000, rq_notes = None\<rparr>"

definition bad_master_body :: Master_body where
  "bad_master_body =
     \<lparr>mb_name = None, mb_email = Some ''not-an-email'', mb_phone = None, mb_city = None,
      mb_bio = None, mb_avatar = Some ''ftp'', mb_skills = None, mb_rating = Some 6,
      mb_reviews_count = Some (- 1)\<rparr>"

definition bad_booking_body :: BookingRequest_body where
  "bad_booking_body =
     \<lparr>rb_master_id = None, rb_name = None, rb_email = Some ''not-an-email'',
      rb_datetime_utc = None, rb_notes = None\<rparr>"

definition plain_master_body :: Master_body where
  "plain_master_body =
     \<lparr>mb_name = Some ''Eve'', mb_email = None, mb_phone = None, mb_city = None,
      mb_bio = None, mb_avatar = None, mb_skills = None, mb_rating = None,
      mb_reviews_count = None\<rparr>"

definition plain_master :: Master where
  "plain_master =
     \<lparr>m_name = ''Eve'', m_email = None, m_phone = None, m_city = None, m_bio = None,
      m_avatar = None, m_skills = [], m_rating = 0, m_reviews_count = 0\<rparr>"

text \<open>The store after that master has been created on the empty store, and its summary.\<close>

definition eve_store :: store where
  "eve_store =
     \<lparr>available = True,
      documents = [(''master'', (''_id'', PObjectId ''0'') # to_document (EMaster plain_master))],
      next_id = 1, write_faults = []\<rparr>"

definition eve_summary :: MasterOut where
  "eve_summary =
     \<lparr>mo_id = ''0'', mo_name = ''Eve'', mo_role = None, mo_rating = 0, mo_reviews_count = 0,
      mo_city = None, mo_avatar = None, mo_verified = False\<rparr>"

definition empty_booking_body :: BookingRequest_body where
  "empty_booking_body =
     \<lparr>rb_master_id = None, rb_name = None, rb_email = None, rb_datetime_utc = None,
      rb_notes = None\<rparr>"

section \<open>Facts about the gateway and the serializer\<close>

declare decimal.simps [simp del]

lemma list_all2_right_set:
  "list_all2 P xs ys \<Longrightarrow> y \<in> set ys \<Longrightarrow> \<exists>x \<in> set xs. P x y"
  by (induction rule: list_all2_induct) auto

lemma serialize_all_list_all2:
  "serialize_all lib ds = Inr outs \<Longrightarrow> list_all2 (\<lambda>d x. serialize_master lib d = Inr x) ds outs"
  by (induction ds arbitrary: outs) (auto split: sum.splits)

lemma list_masters_Inr:
  "list_masters lib city limit st = Inr outs \<Longrightarrow>
     get_documents ''master'' (str_filter ''city'' city) limit st =
       Inr (take (nat limit) (filter (matches (str_filter ''city'' city)) (collection st ''master''))) \<and>
     list_all2 (\<lambda>d x. serialize_master lib d = Inr x)
       (take (nat limit) (filter (matches (str_filter ''city'' city)) (collection st ''master''))) outs"
  by (auto simp: list_masters_def get_documents_def serialize_all_list_all2 split: sum.splits if_splits)

lemma serialize_master_city:
  "serialize_master lib d = Inr x \<Longrightarrow> map_of d ''city'' = Some (PStr c) \<Longrightarrow> mo_city x = Some c"
  by (auto simp: serialize_master_def MasterOut_new_def dict_get_def split: sum.splits if_splits)

text \<open>
  Claim C4. With a city that is given and not empty, every summary that \<open>list_masters\<close>
  returns has exactly that city; without a city, \<open>list_masters\<close> returns the summaries of the
  first \<open>limit\<close> masters of the store, whatever their city, as many as the limit or the whole
  collection when it is shorter.
\<close>

theorem list_masters_city_filter:
  "(city \<noteq> [] \<and> list_masters lib (Some city) limit st = Inr outs \<longrightarrow>
      (\<forall>x \<in> set outs. mo_city x = Some city)) \<and>
   (list_masters lib None limit st = Inr outs \<longrightarrow>
      list_all2 (\<lambda>d x. serialize_master lib d = Inr x) (take (nat limit) (collection st ''master'')) outs \<and>
      length outs = min (nat limit) (length (collection st ''master'')))"
proof (intro conjI impI)
  assume a: "city \<noteq> [] \<and> list_masters lib (Some city) limit st = Inr outs"
  let ?ds = "take (nat limit) (filter (matches [(''city'', PStr city)]) (collection st ''master''))"
  from a have la: "list_all2 (\<lambda>d x. serialize_master lib d = Inr x) ?ds outs"
    using list_masters_Inr [of lib "Some city" limit st outs] by simp
  have m: "\<forall>d \<in> set ?ds. map_of d ''city'' = Some (PStr city)"
    by (auto simp: matches_def dest!: in_set_takeD)
  show "\<forall>x \<in> set outs. mo_city x = Some city"
  proof
    fix x assume "x \<in> set outs"
    then obtain d where "d \<in> set ?ds" "serialize_master lib d = Inr x"
      using list_all2_right_set [OF la] by blast
    with m show "mo_city x = Some city" by (auto dest: serialize_master_city)
  qed
next
  assume a: "list_masters lib None limit st = Inr outs"
  from list_masters_Inr [OF a]
  show "list_all2 (\<lambda>d x. serialize_master lib d = Inr x) (take (nat limit) (collection st ''master'')) outs"
    by (simp add: matches_def)
  then show "length outs = min (nat limit) (length (collection st ''master''))"
    by (auto dest: list_all2_lengthD)
qed

lemma serialize_master_role_list:
  "serialize_master lib d = Inr x \<Longrightarrow> dict_get d ''skills'' = PList (PStr s # rest) \<Longrightarrow> mo_role x = Some s"
  by (auto simp: serialize_master_def MasterOut_new_def py_or_def split: sum.splits if_splits)

lemma serialize_master_role_empty:
  "serialize_master lib d = Inr x \<Longrightarrow> dict_get d ''skills'' = PList [] \<Longrightarrow> mo_role x = None"
  by (auto simp: serialize_master_def MasterOut_new_def py_or_def split: sum.splits if_splits)

lemma py_index0_or_no_IndexError: "py_index0 (py_or v (PList [PNone])) \<noteq> Inl IndexError"
  by (cases v rule: py_index0.cases) (auto simp: py_or_def)

lemma py_float_no_IndexError: "py_float lib v \<noteq> Inl IndexError"
  by (cases "(lib, v)" rule: py_float.cases) (auto split: option.splits)

lemma py_int_no_IndexError: "py_int lib v \<noteq> Inl IndexError"
  by (cases "(lib, v)" rule: py_int.cases) (auto split: option.splits)

lemma serialize_master_no_IndexError: "serialize_master lib d \<noteq> Inl IndexError"
  using py_index0_or_no_IndexError [of "dict_get d ''skills''"]
    py_float_no_IndexError [of lib "dict_get_default d ''rating'' (PInt 0)"]
    py_int_no_IndexError [of lib "dict_get_default d ''reviews_count'' (PInt 0)"]
  by (auto simp: serialize_master_def MasterOut_new_def split: sum.splits)

lemma is_opt_str_opt_val [simp]: "is_opt_str (opt_val x)" "the_opt_str (opt_val x) = x"
  by (cases x; simp)+

lemma serialize_stored_master:
  "serialize_master lib ((''_id'', PObjectId i) # to_document (EMaster m)) =
     Inr \<lparr>mo_id = i, mo_name = m_name m,
          mo_role = (case m_skills m of [] \<Rightarrow> None | s # rest \<Rightarrow> Some s),
          mo_rating = m_rating m, mo_reviews_count = m_reviews_count m,
          mo_city = m_city m, mo_avatar = m_avatar m, mo_verified = False\<rparr>"
  by (cases "m_skills m")
     (simp_all add: serialize_master_def MasterOut_new_def MasterOut_errors_def dict_get_def
        dict_get_default_def py_or_def)

text \<open>
  Claim C7. Each summary that \<open>list_masters\<close> returns has as its role the first element of
  the skills of its document, and no role when the list of skills is empty: on an empty
  list the expression \<open>(doc.get("skills") or [None])[0]\<close> is \<open>None\<close>. No document makes
  the serializer raise \<open>IndexError\<close>, and the document of a master that this system has stored
  is always serialized, with the first skill or \<open>None\<close> as the role.
\<close>

theorem list_masters_role_first_skill:
  "(list_masters lib city limit st = Inr outs \<longrightarrow>
      (\<exists>docs. get_documents ''master'' (str_filter ''city'' city) limit st = Inr docs \<and>
         list_all2 (\<lambda>d x.
            (\<forall>s rest. dict_get d ''skills'' = PList (PStr s # rest) \<longrightarrow> mo_role x = Some s) \<and>
            (dict_get d ''skills'' = PList [] \<longrightarrow> mo_role x = None)) docs outs)) \<and>
   (dict_get d ''skills'' = PList [] \<longrightarrow>
      py_index0 (py_or (dict_get d ''skills'') (PList [PNone])) = Inr PNone) \<and>
   serialize_master lib d \<noteq> Inl IndexError \<and>
   (\<exists>x. serialize_master lib ((''_id'', PObjectId i) # to_document (EMaster m)) = Inr x \<and>
        mo_role x = (case m_skills m of [] \<Rightarrow> None | s # rest \<Rightarrow> Some s))"
proof (intro conjI impI)
  assume a: "list_masters lib city limit st = Inr outs"
  let ?ds = "take (nat limit) (filter (matches (str_filter ''city'' city)) (collection st ''master''))"
  from list_masters_Inr [OF a]
  have g: "get_documents ''master'' (str_filter ''city'' city) limit st = Inr ?ds"
    and la: "list_all2 (\<lambda>d x. serialize_master lib d = Inr x) ?ds outs" by simp_all
  from la have "list_all2 (\<lambda>d x.
            (\<forall>s rest. dict_get d ''skills'' = PList (PStr s # rest) \<longrightarrow> mo_role x = Some s) \<and>
            (dict_get d ''skills'' = PList [] \<longrightarrow> mo_role x = None)) ?ds outs"
    by (rule list_all2_mono) (auto dest: serialize_master_role_list serialize_master_role_empty)
  with g show "\<exists>docs. get_documents ''master'' (str_filter ''city'' city) limit st = Inr docs \<and>
         list_all2 (\<lambda>d x.
            (\<forall>s rest. dict_get d ''skills'' = PList (PStr s # rest) \<longrightarrow> mo_role x = Some s) \<and>
            (dict_get d ''skills'' = PList [] \<longrightarrow> mo_role x = None)) docs outs"
    by blast
next
  assume "dict_get d ''skills'' = PList []"
  then show "py_index0 (py_or (dict_get d ''skills'') (PList [PNone])) = Inr PNone"
    by (simp add: py_or_def)
next
  show "serialize_master lib d \<noteq> Inl IndexError" by (rule serialize_master_no_IndexError)
next
  show "\<exists>x. serialize_master lib ((''_id'', PObjectId i) # to_document (EMaster m)) = Inr x \<and>
        mo_role x = (case m_skills m of [] \<Rightarrow> None | s # rest \<Rightarrow> Some s)"
    by (subst serialize_stored_master) simp
qed



lemma create_document_ok:
  "available st \<Longrightarrow> \<not> (write_faults st \<noteq> [] \<and> hd (write_faults st)) \<Longrightarrow>
   create_document kind e st =
     (Inr (decimal (next_id st)),
      st\<lparr>documents := documents st @ [(kind, (''_id'', PObjectId (decimal (next_id st))) # to_document e)],
         next_id := Suc (next_id st),
         write_faults := tl (write_faults st)\<rparr>)"
  by (simp add: create_document_def)

lemma create_document_Inr:
  "create_document kind e st = (Inr i, st') \<Longrightarrow>
     documents st' = documents st @ [(kind, (''_id'', PObjectId i) # to_document e)]"
  by (auto simp: create_document_def split: if_splits)

lemma create_document_Inl:
  "create_document kind e st = (Inl x, st') \<Longrightarrow> documents st' = documents st"
  by (auto simp: create_document_def split: if_splits)

lemma Booking_new_pending:
  "Booking_new mid cid sid dt ''pending'' nt =
     Inr \<lparr>b_master_id = mid, b_client_id = cid, b_service_id = sid,
          b_datetime_utc = dt, b_status = ''pending'', b_notes = nt\<rparr>"
  by (simp add: Booking_new_def booking_statuses_def)

text \<open>
  Claim C1. For every valid booking request (master id, name, valid email, datetime, optional
  notes), on a store that is available and whose next two writes succeed, the endpoint first
  inserts a new client built from the name and the email, then inserts a booking whose
  \<open>client_id\<close> is the identifier that the client insert returned, whose \<open>service_id\<close> is
  \<open>unknown\<close> and whose status is \<open>pending\<close>, and returns the identifier of the booking with
  the status \<open>pending\<close>. The store afterwards is the store before with exactly these two
  documents appended.
\<close>

theorem create_booking_client_then_booking:
  assumes v: "BookingRequest_validate lib body = Inr req"
    and a: "available st"
    and f: "True \<notin> set (take 2 (write_faults st))"
  shows "POST_api_bookings lib body st =
     (Inr \<lparr>bo_id = decimal (Suc (next_id st)), bo_status = ''pending''\<rparr>,
      st\<lparr>documents := documents st @
           [(''client'', (''_id'', PObjectId (decimal (next_id st))) #
               to_document (EClient \<lparr>c_name = rq_name req, c_email = rq_email req,
                                     c_phone = None, c_avatar = None\<rparr>)),
            (''booking'', (''_id'', PObjectId (decimal (Suc (next_id st)))) #
               to_document (EBooking \<lparr>b_master_id = rq_master_id req,
                                      b_client_id = decimal (next_id st),
                                      b_service_id = ''unknown'',
                                      b_datetime_utc = rq_datetime_utc req,
                                      b_status = ''pending'',
                                      b_notes = rq_notes req\<rparr>))],
         next_id := Suc (Suc (next_id st)),
         write_faults := drop 2 (write_faults st)\<rparr>)"
proof -
  from f have f1: "\<not> (write_faults st \<noteq> [] \<and> hd (write_faults st))"
    by (cases "write_faults st") auto
  from f have f2: "\<not> (tl (write_faults st) \<noteq> [] \<and> hd (tl (write_faults st)))"
    by (cases "write_faults st"; cases "tl (write_faults st)") auto
  have d: "drop 2 (write_faults st) = tl (tl (write_faults st))"
    by (cases "write_faults st"; cases "tl (write_faults st)") auto
  show ?thesis
    using v a f1 f2
    by (simp add: POST_api_bookings_def create_booking_def create_document_ok Booking_new_pending
        Client_new_def d)
qed

text \<open>
  Claim C8. When the client insert of a booking request succeeds and the booking insert fails,
  the handler answers with one \<open>InternalError\<close> made from that failure, runs no further store
  operation, and the client document is still in the store. In every handler a failure of the
  gateway is answered with the \<open>InternalError\<close> of that failure.
\<close>

theorem gateway_failure_internal_error:
  "(create_document ''client'' (EClient (Client_new (rq_name req) (rq_email req))) st = (Inr client_id, st1) \<and>
    create_document ''booking''
      (EBooking \<lparr>b_master_id = rq_master_id req, b_client_id = client_id,
                 b_service_id = ''unknown'', b_datetime_utc = rq_datetime_utc req,
                 b_status = ''pending'', b_notes = rq_notes req\<rparr>) st1 = (Inl e, st2) \<longrightarrow>
      create_booking req st = (Inl (InternalError e), st2) \<and>
      (''client'', (''_id'', PObjectId client_id) #
         to_document (EClient (Client_new (rq_name req) (rq_email req)))) \<in> set (documents st2)) \<and>
   (create_document ''client'' (EClient (Client_new (rq_name req) (rq_email req))) st = (Inl e, st1) \<longrightarrow>
      create_booking req st = (Inl (InternalError e), st1)) \<and>
   (get_documents ''master'' (str_filter ''city'' city) limit st = Inl e \<longrightarrow>
      list_masters lib city limit st = Inl (InternalError e)) \<and>
   (create_document ''master'' (EMaster m) st = (Inl e, st1) \<longrightarrow>
      create_master m st = (Inl (InternalError e), st1)) \<and>
   (validate_all lib sample = Inr ms \<and> create_all ms st = (Inl e, st1) \<longrightarrow>
      seed_demo_data lib st = (Inl (InternalError e), st1)) \<and>
   (get_documents ''booking'' (str_filter ''master_id'' master_id) limit st = Inl e \<longrightarrow>
      list_bookings lib master_id limit st = Inl (InternalError e))"
proof (intro conjI impI)
  assume h: "create_document ''client'' (EClient (Client_new (rq_name req) (rq_email req))) st = (Inr client_id, st1) \<and>
    create_document ''booking''
      (EBooking \<lparr>b_master_id = rq_master_id req, b_client_id = client_id,
                 b_service_id = ''unknown'', b_datetime_utc = rq_datetime_utc req,
                 b_status = ''pending'', b_notes = rq_notes req\<rparr>) st1 = (Inl e, st2)"
  then show "create_booking req st = (Inl (InternalError e), st2)"
    by (simp add: create_booking_def Booking_new_pending)
  from h have "documents st2 = documents st1"
    by (auto dest: create_document_Inl)
  moreover from h have "documents st1 = documents st @
      [(''client'', (''_id'', PObjectId client_id) #
          to_document (EClient (Client_new (rq_name req) (rq_email req))))]"
    by (auto dest: create_document_Inr)
  ultimately show "(''client'', (''_id'', PObjectId client_id) #
         to_document (EClient (Client_new (rq_name req) (rq_email req)))) \<in> set (documents st2)"
    by simp
qed (simp_all add: create_booking_def list_masters_def create_master_def seed_demo_data_def
       list_bookings_def)


lemma create_all_docs:
  "create_all ms st = (Inr ids, st') \<Longrightarrow>
     length ids = length ms \<and>
     documents st' = documents st @
       map (\<lambda>im. (''master'', (''_id'', PObjectId (fst im)) # to_document (EMaster (snd im)))) (zip ids ms)"
proof (induction ms arbitrary: st ids st')
  case Nil
  then show ?case by simp
next
  case (Cons m ms)
  from Cons.prems obtain i st1 rest where
    c: "create_document ''master'' (EMaster m) st = (Inr i, st1)"
    and r: "create_all ms st1 = (Inr rest, st')"
    and ids: "ids = i # rest"
    by (auto split: prod.splits sum.splits)
  from Cons.IH [OF r] create_document_Inr [OF c] ids show ?case by simp
qed

lemma validate_all_length:
  "validate_all lib bs = Inr ms \<Longrightarrow> length ms = length bs"
  by (induction bs arbitrary: ms) (auto split: sum.splits)

lemma stored_master_no_verified:
  "map_of ((''_id'', v) # to_document (EMaster m)) ''verified'' = None"
  "map_of (to_document (EMaster m)) ''verified'' = None"
  by simp_all

lemma serialize_master_unverified:
  "serialize_master lib d = Inr x \<Longrightarrow> map_of d ''verified'' = None \<Longrightarrow> \<not> mo_verified x"
  by (auto simp: serialize_master_def MasterOut_new_def dict_get_default_def
      split: sum.splits if_splits)

text \<open>
  Claim C10. The document that \<open>create_master\<close> or the seed endpoint stores has no field
  \<open>verified\<close>; a summary that \<open>list_masters\<close> returns for a document without that field has
  \<open>verified\<close> false; and the stored document of a master is always serialized, with \<open>verified\<close>
  false.
\<close>

theorem created_master_unverified:
  "(create_master m st = (Inr new_id, st') \<longrightarrow>
      (\<exists>d. documents st' = documents st @ [(''master'', d)] \<and>
           dict_get d ''_id'' = PObjectId new_id \<and> map_of d ''verified'' = None)) \<and>
   (seed_demo_data lib st = (Inr (n, ids), st') \<longrightarrow>
      (\<exists>ds. documents st' = documents st @ map (Pair ''master'') ds \<and> length ds = 3 \<and>
            map (\<lambda>d. dict_get d ''_id'') ds = map PObjectId ids \<and>
            (\<forall>d \<in> set ds. map_of d ''verified'' = None))) \<and>
   (list_masters lib city limit st = Inr outs \<longrightarrow>
      (\<exists>docs. get_documents ''master'' (str_filter ''city'' city) limit st = Inr docs \<and>
         list_all2 (\<lambda>d x. map_of d ''verified'' = None \<longrightarrow> \<not> mo_verified x) docs outs)) \<and>
   (\<exists>x. serialize_master lib ((''_id'', PObjectId i) # to_document (EMaster m)) = Inr x \<and>
        mo_id x = i \<and> \<not> mo_verified x)"
proof (intro conjI impI)
  assume "create_master m st = (Inr new_id, st')"
  then have "create_document ''master'' (EMaster m) st = (Inr new_id, st')"
    by (auto simp: create_master_def split: prod.splits sum.splits)
  from create_document_Inr [OF this]
  show "\<exists>d. documents st' = documents st @ [(''master'', d)] \<and>
           dict_get d ''_id'' = PObjectId new_id \<and> map_of d ''verified'' = None"
    by (simp add: dict_get_def)
next
  assume "seed_demo_data lib st = (Inr (n, ids), st')"
  then obtain ms where v: "validate_all lib sample = Inr ms"
    and c: "create_all ms st = (Inr ids, st')"
    by (auto simp: seed_demo_data_def split: prod.splits sum.splits)
  let ?ds = "map (\<lambda>im. (''_id'', PObjectId (fst im)) # to_document (EMaster (snd im))) (zip ids ms)"
  from validate_all_length [OF v] have l: "length ms = 3" by (simp add: sample_def)
  from create_all_docs [OF c] have li: "length ids = length ms"
    and d: "documents st' = documents st @ map (Pair ''master'') ?ds"
    by (simp_all add: comp_def)
  have "map (\<lambda>d. dict_get d ''_id'') ?ds = map PObjectId (map fst (zip ids ms))"
    by (simp add: dict_get_def comp_def)
  with li have i: "map (\<lambda>d. dict_get d ''_id'') ?ds = map PObjectId ids" by simp
  have "\<forall>d \<in> set ?ds. map_of d ''verified'' = None" by auto
  with d l li i
  show "\<exists>ds. documents st' = documents st @ map (Pair ''master'') ds \<and> length ds = 3 \<and>
            map (\<lambda>d. dict_get d ''_id'') ds = map PObjectId ids \<and>
            (\<forall>d \<in> set ds. map_of d ''verified'' = None)"
    by (intro exI [of _ ?ds]) simp
next
  assume a: "list_masters lib city limit st = Inr outs"
  let ?ds = "take (nat limit) (filter (matches (str_filter ''city'' city)) (collection st ''master''))"
  from list_masters_Inr [OF a]
  have g: "get_documents ''master'' (str_filter ''city'' city) limit st = Inr ?ds"
    and la: "list_all2 (\<lambda>d x. serialize_master lib d = Inr x) ?ds outs" by simp_all
  from la have "list_all2 (\<lambda>d x. map_of d ''verified'' = None \<longrightarrow> \<not> mo_verified x) ?ds outs"
    by (rule list_all2_mono) (auto dest: serialize_master_unverified)
  with g show "\<exists>docs. get_documents ''master'' (str_filter ''city'' city) limit st = Inr docs \<and>
         list_all2 (\<lambda>d x. map_of d ''verified'' = None \<longrightarrow> \<not> mo_verified x) docs outs"
    by blast
next
  show "\<exists>x. serialize_master lib ((''_id'', PObjectId i) # to_document (EMaster m)) = Inr x \<and>
        mo_id x = i \<and> \<not> mo_verified x"
    by (subst serialize_stored_master) simp
qed

text \<open>
  Claim C5. \<open>get_schema\<close> has exactly the six keys master, client, service, booking, review
  and portfolioitem, each once, and each with the schema of its declared model. It has no
  argument and reads no state: it is the same mapping at every call.
\<close>

theorem get_schema_six_kinds:
  "set (map fst get_schema) =
     {''master'', ''client'', ''service'', ''booking'', ''review'', ''portfolioitem''} \<and>
   distinct (map fst get_schema) \<and>
   get_schema = map (\<lambda>nm. (fst nm, model_json_schema (snd nm))) ALL_SCHEMAS"
  by (simp add: get_schema_def ALL_SCHEMAS_def)

text \<open>
  Claim C9. \<open>list_masters\<close> with the empty string as the city returns what it returns
  without a city, for every store and limit, and so does \<open>list_bookings\<close> with the empty
  string as the master id; the same holds for the two endpoints.
\<close>

theorem empty_filter_is_absent:
  "list_masters lib (Some []) limit st = list_masters lib None limit st \<and>
   list_bookings lib (Some []) limit st = list_bookings lib None limit st \<and>
   GET_api_masters lib (Some []) given st = GET_api_masters lib None given st \<and>
   GET_api_bookings lib (Some []) given st = GET_api_bookings lib None given st"
proof -
  have m: "list_masters lib (Some []) k st = list_masters lib None k st" for k
    by (simp add: list_masters_def)
  have b: "list_bookings lib (Some []) k st = list_bookings lib None k st" for k
    by (simp add: list_bookings_def)
  show ?thesis
    by (simp add: m b GET_api_masters_def GET_api_bookings_def split: sum.splits)
qed

text \<open>
  Claim C2, as amended. The limit is not clamped: a limit outside \<open>[1,100]\<close> for the masters
  and outside \<open>[1,200]\<close> for the bookings, zero, negative or above the upper bound, is
  refused as \<open>InvalidInput\<close> naming \<open>limit\<close>, whatever the store is, so before any store
  operation; a limit inside the range reaches the handler unchanged, and a query without a limit
  uses 12 and 50.
\<close>

theorem limit_out_of_range_rejected:
  "(n < 1 \<or> 100 < n \<longrightarrow> GET_api_masters lib city (Some n) st = Inl (InvalidInput [''limit''])) \<and>
   (1 \<le> n \<and> n \<le> 100 \<longrightarrow> GET_api_masters lib city (Some n) st = list_masters lib city n st) \<and>
   GET_api_masters lib city None st = list_masters lib city 12 st \<and>
   (n < 1 \<or> 200 < n \<longrightarrow> GET_api_bookings lib master_id (Some n) st = Inl (InvalidInput [''limit''])) \<and>
   (1 \<le> n \<and> n \<le> 200 \<longrightarrow> GET_api_bookings lib master_id (Some n) st = list_bookings lib master_id n st) \<and>
   GET_api_bookings lib master_id None st = list_bookings lib master_id 50 st"
  by (auto simp: GET_api_masters_def GET_api_bookings_def query_int_def)

text \<open>
  Claim C2 as it is stated fails: were the limit clamped, the limit 150 would be served
  as the limit 100, which on the empty store is the empty list; the endpoint refuses it.
\<close>

theorem limit_not_clamped:
  "GET_api_masters plain_library None (Some 150) empty_store \<noteq>
     list_masters plain_library None (max 1 (min 100 150)) empty_store \<and>
   GET_api_masters plain_library None (Some 150) empty_store = Inl (InvalidInput [''limit'']) \<and>
   list_masters plain_library None (max 1 (min 100 150)) empty_store = Inr []"
  by (simp add: GET_api_masters_def query_int_def list_masters_def get_documents_def
      empty_store_def collection_def)

lemma Master_validate_bounds:
  "Master_validate lib body = Inr m \<Longrightarrow>
     0 \<le> m_rating m \<and> m_rating m \<le> 5 \<and> 0 \<le> m_reviews_count m"
  by (auto simp: Master_validate_def Master_errors_def split: if_splits option.splits)

lemma Master_validate_defaults:
  "Master_validate lib body = Inr m \<Longrightarrow>
     (mb_rating body = None \<longrightarrow> m_rating m = 0) \<and>
     (mb_reviews_count body = None \<longrightarrow> m_reviews_count m = 0) \<and>
     (mb_skills body = None \<longrightarrow> m_skills m = [])"
  by (auto simp: Master_validate_def split: if_splits)

lemma validate_all_each:
  "validate_all lib bs = Inr ms \<Longrightarrow> \<forall>m \<in> set ms. \<exists>b \<in> set bs. Master_validate lib b = Inr m"
  by (induction bs arbitrary: ms) (auto split: sum.splits)

lemma POST_api_masters_rejects:
  "Master_errors lib body \<noteq> [] \<Longrightarrow>
     POST_api_masters lib body st = (Inl (InvalidInput (Master_errors lib body)), st)"
  by (simp add: POST_api_masters_def Master_validate_def)

lemma POST_api_bookings_rejects:
  "BookingRequest_errors lib body \<noteq> [] \<Longrightarrow>
     POST_api_bookings lib body st = (Inl (InvalidInput (BookingRequest_errors lib body)), st)"
  by (simp add: POST_api_bookings_def BookingRequest_validate_def)

lemma Master_errors_rating:
  "mb_rating body = Some r \<Longrightarrow> r < 0 \<or> 5 < r \<Longrightarrow> ''rating'' \<in> set (Master_errors lib body)"
  by (auto simp: Master_errors_def)

lemma Master_errors_reviews_count:
  "mb_reviews_count body = Some k \<Longrightarrow> k < 0 \<Longrightarrow> ''reviews_count'' \<in> set (Master_errors lib body)"
  by (auto simp: Master_errors_def)

lemma Master_errors_name:
  "mb_name body = None \<Longrightarrow> ''name'' \<in> set (Master_errors lib body)"
  by (auto simp: Master_errors_def)

lemma Master_errors_email:
  "mb_email body = Some s \<Longrightarrow> email_str lib s = None \<Longrightarrow> ''email'' \<in> set (Master_errors lib body)"
  by (auto simp: Master_errors_def opt_valid_def)

lemma Master_errors_avatar:
  "mb_avatar body = Some u \<Longrightarrow> http_url lib u = None \<Longrightarrow> ''avatar'' \<in> set (Master_errors lib body)"
  by (auto simp: Master_errors_def opt_valid_def)

text \<open>
  Claim C6. A master that the \<open>Master\<close> shape accepts has a rating in \<open>[0,5]\<close> and a review
  count that is not negative, with the rating 0, the review count 0 and the empty list of
  skills where the body leaves them out; so have the three masters that the seed endpoint
  constructs; and a body whose rating or review count is out of these bounds is refused by
  the endpoint as \<open>InvalidInput\<close> naming the field, with the store unchanged.
\<close>

theorem Master_rating_reviews_bounds:
  "(Master_validate lib body = Inr m \<longrightarrow>
      0 \<le> m_rating m \<and> m_rating m \<le> 5 \<and> 0 \<le> m_reviews_count m \<and>
      (mb_rating body = None \<longrightarrow> m_rating m = 0) \<and>
      (mb_reviews_count body = None \<longrightarrow> m_reviews_count m = 0) \<and>
      (mb_skills body = None \<longrightarrow> m_skills m = [])) \<and>
   (validate_all lib sample = Inr ms \<longrightarrow>
      (\<forall>m \<in> set ms. 0 \<le> m_rating m \<and> m_rating m \<le> 5 \<and> 0 \<le> m_reviews_count m)) \<and>
   ((\<exists>r. mb_rating body = Some r \<and> (r < 0 \<or> 5 < r)) \<or>
    (\<exists>k. mb_reviews_count body = Some k \<and> k < 0) \<longrightarrow>
      (\<exists>errs. POST_api_masters lib body st = (Inl (InvalidInput errs), st) \<and>
         (''rating'' \<in> set errs \<or> ''reviews_count'' \<in> set errs)))"
proof (intro conjI impI)
  assume v: "Master_validate lib body = Inr m"
  from Master_validate_bounds [OF v]
  show "0 \<le> m_rating m" "m_rating m \<le> 5" "0 \<le> m_reviews_count m" by simp_all
  from Master_validate_defaults [OF v]
  show "mb_rating body = None \<Longrightarrow> m_rating m = 0"
    "mb_reviews_count body = None \<Longrightarrow> m_reviews_count m = 0"
    "mb_skills body = None \<Longrightarrow> m_skills m = []" by simp_all
next
  assume "validate_all lib sample = Inr ms"
  from validate_all_each [OF this]
  show "\<forall>m \<in> set ms. 0 \<le> m_rating m \<and> m_rating m \<le> 5 \<and> 0 \<le> m_reviews_count m"
    by (auto dest: Master_validate_bounds)
next
  assume "(\<exists>r. mb_rating body = Some r \<and> (r < 0 \<or> 5 < r)) \<or>
    (\<exists>k. mb_reviews_count body = Some k \<and> k < 0)"
  then have e: "''rating'' \<in> set (Master_errors lib body) \<or>
      ''reviews_count'' \<in> set (Master_errors lib body)"
    using Master_errors_rating [of body _ lib] Master_errors_reviews_count [of body _ lib]
    by blast
  then have "Master_errors lib body \<noteq> []" by auto
  from POST_api_masters_rejects [OF this] e
  show "\<exists>errs. POST_api_masters lib body st = (Inl (InvalidInput errs), st) \<and>
         (''rating'' \<in> set errs \<or> ''reviews_count'' \<in> set errs)"
    by blast
qed

lemma BookingRequest_errors_fields:
  "(rb_master_id body = None \<longrightarrow> ''master_id'' \<in> set (BookingRequest_errors lib body)) \<and>
   (rb_name body = None \<longrightarrow> ''name'' \<in> set (BookingRequest_errors lib body)) \<and>
   (rb_email body = None \<longrightarrow> ''email'' \<in> set (BookingRequest_errors lib body)) \<and>
   (rb_email body = Some s \<and> email_str lib s = None \<longrightarrow> ''email'' \<in> set (BookingRequest_errors lib body)) \<and>
   (rb_datetime_utc body = None \<longrightarrow> ''datetime_utc'' \<in> set (BookingRequest_errors lib body))"
  by (auto simp: BookingRequest_errors_def)

text \<open>
  Claim C3. A body that violates its declared shape (a missing required field, a malformed
  email or URL, a rating or a review count out of its bounds) is refused as \<open>InvalidInput\<close>
  with the names of the offending fields, and the store is returned as it was, whatever it is;
  so it is for a master body with the email \<open>not-an-email\<close> when the validator refuses that
  text.
\<close>

theorem invalid_body_rejected_before_store:
  "(f \<in> set (Master_errors lib body) \<longrightarrow>
      POST_api_masters lib body st = (Inl (InvalidInput (Master_errors lib body)), st)) \<and>
   (mb_name body = None \<longrightarrow> ''name'' \<in> set (Master_errors lib body)) \<and>
   (mb_email body = Some s \<and> email_str lib s = None \<longrightarrow> ''email'' \<in> set (Master_errors lib body)) \<and>
   (mb_avatar body = Some u \<and> http_url lib u = None \<longrightarrow> ''avatar'' \<in> set (Master_errors lib body)) \<and>
   (mb_rating body = Some r \<and> (r < 0 \<or> 5 < r) \<longrightarrow> ''rating'' \<in> set (Master_errors lib body)) \<and>
   (mb_reviews_count body = Some k \<and> k < 0 \<longrightarrow> ''reviews_count'' \<in> set (Master_errors lib body)) \<and>
   (g \<in> set (BookingRequest_errors lib bbody) \<longrightarrow>
      POST_api_bookings lib bbody st = (Inl (InvalidInput (BookingRequest_errors lib bbody)), st)) \<and>
   (rb_master_id bbody = None \<longrightarrow> ''master_id'' \<in> set (BookingRequest_errors lib bbody)) \<and>
   (rb_name bbody = None \<longrightarrow> ''name'' \<in> set (BookingRequest_errors lib bbody)) \<and>
   (rb_email bbody = None \<longrightarrow> ''email'' \<in> set (BookingRequest_errors lib bbody)) \<and>
   (rb_email bbody = Some s \<and> email_str lib s = None \<longrightarrow> ''email'' \<in> set (BookingRequest_errors lib bbody)) \<and>
   (rb_datetime_utc bbody = None \<longrightarrow> ''datetime_utc'' \<in> set (BookingRequest_errors lib bbody)) \<and>
   (mb_email body = Some ''not-an-email'' \<and> email_str lib ''not-an-email'' = None \<longrightarrow>
      (\<exists>errs. POST_api_masters lib body st = (Inl (InvalidInput errs), st) \<and> ''email'' \<in> set errs))"
proof (intro conjI impI)
  assume "f \<in> set (Master_errors lib body)"
  then have "Master_errors lib body \<noteq> []" by auto
  then show "POST_api_masters lib body st = (Inl (InvalidInput (Master_errors lib body)), st)"
    by (rule POST_api_masters_rejects)
next
  assume "g \<in> set (BookingRequest_errors lib bbody)"
  then have "BookingRequest_errors lib bbody \<noteq> []" by auto
  then show "POST_api_bookings lib bbody st =
      (Inl (InvalidInput (BookingRequest_errors lib bbody)), st)"
    by (rule POST_api_bookings_rejects)
next
  assume a: "mb_email body = Some ''not-an-email'' \<and> email_str lib ''not-an-email'' = None"
  then have e: "''email'' \<in> set (Master_errors lib body)"
    by (simp add: Master_errors_email)
  then have "Master_errors lib body \<noteq> []" by auto
  from POST_api_masters_rejects [OF this] e
  show "\<exists>errs. POST_api_masters lib body st = (Inl (InvalidInput errs), st) \<and> ''email'' \<in> set errs"
    by blast
qed (insert BookingRequest_errors_fields [of bbody lib s],
     simp_all add: Master_errors_name Master_errors_email Master_errors_avatar
       Master_errors_rating Master_errors_reviews_count)



section \<open>The theorems at the concrete inputs\<close>

lemma validate_sample: "validate_all plain_library sample = Inr [anna, irina, maria]"
  by (simp add: sample_def Master_validate_def Master_errors_def opt_valid_def opt_norm_def
      plain_library_def anna_def irina_def maria_def anna_avatar_def irina_avatar_def
      maria_avatar_def)

lemma seed_empty_store:
  "seed_demo_data plain_library empty_store = (Inr (3, [''0'', ''1'', ''2'']), seeded_store)"
  by (simp add: seed_demo_data_def validate_sample create_document_def empty_store_def
      seeded_store_def decimal.simps)

lemma cities_differ: "moscow \<noteq> saint_petersburg" "moscow \<noteq> kazan" "moscow \<noteq> []"
  by (simp_all add: moscow_def saint_petersburg_def kazan_def)

lemma serialize_anna:
  "serialize_master lib ((''_id'', PObjectId ''0'') # to_document (EMaster anna)) = Inr anna_summary"
  by (subst serialize_stored_master) (simp add: anna_def anna_summary_def)

lemma serialize_irina:
  "serialize_master lib ((''_id'', PObjectId ''1'') # to_document (EMaster irina)) = Inr irina_summary"
  by (subst serialize_stored_master) (simp add: irina_def irina_summary_def)

lemma masters_of_seeded_store:
  "collection seeded_store ''master'' =
     [(''_id'', PObjectId ''0'') # to_document (EMaster anna),
      (''_id'', PObjectId ''1'') # to_document (EMaster irina),
      (''_id'', PObjectId ''2'') # to_document (EMaster maria)]"
  by (simp add: collection_def seeded_store_def)

lemma available_seeded_store: "available seeded_store"
  by (simp add: seeded_store_def)

lemma matches_moscow:
  "matches [(''city'', PStr moscow)] ((''_id'', PObjectId ''0'') # to_document (EMaster anna))"
  "\<not> matches [(''city'', PStr moscow)] ((''_id'', PObjectId ''1'') # to_document (EMaster irina))"
  "\<not> matches [(''city'', PStr moscow)] ((''_id'', PObjectId ''2'') # to_document (EMaster maria))"
  using cities_differ by (simp_all add: matches_def anna_def irina_def maria_def)

lemma list_moscow:
  "list_masters lib (Some moscow) 1 seeded_store = Inr [anna_summary]"
  using cities_differ
  by (simp add: list_masters_def get_documents_def masters_of_seeded_store matches_moscow
      serialize_anna available_seeded_store del: to_document.simps)

lemma list_two:
  "list_masters lib None 2 seeded_store = Inr [anna_summary, irina_summary]"
  by (simp add: list_masters_def get_documents_def masters_of_seeded_store matches_def
      serialize_anna serialize_irina available_seeded_store del: to_document.simps)

text \<open>An instance of the theorem of claim C4 at the concrete inputs.\<close>

theorem list_masters_city_filter_witness:
  "moscow \<noteq> [] \<and>
   list_masters plain_library (Some moscow) 1 seeded_store = Inr [anna_summary] \<and>
   mo_city anna_summary = Some moscow \<and>
   list_masters plain_library None 2 seeded_store = Inr [anna_summary, irina_summary] \<and>
   length [anna_summary, irina_summary] = min (nat 2) (length (collection seeded_store ''master''))"
  using list_masters_city_filter [of moscow plain_library 1 seeded_store "[anna_summary]"]
    list_masters_city_filter [of moscow plain_library 2 seeded_store "[anna_summary, irina_summary]"]
    cities_differ list_moscow list_two
  by simp


text \<open>An instance of the theorem of claim C1 at the concrete inputs.\<close>

theorem create_booking_client_then_booking_witness:
  "BookingRequest_validate plain_library jane_body = Inr jane_request \<and>
   available empty_store \<and>
   True \<notin> set (take 2 (write_faults empty_store)) \<and>
   POST_api_bookings plain_library jane_body empty_store =
     (Inr \<lparr>bo_id = ''1'', bo_status = ''pending''\<rparr>,
      \<lparr>available = True,
       documents =
         [(''client'',
           [(''_id'', PObjectId ''0''), (''name'', PStr ''Jane Doe''),
            (''email'', PStr ''jane@example.com''), (''phone'', PNone), (''avatar'', PNone)]),
          (''booking'',
           [(''_id'', PObjectId ''1''), (''master_id'', PStr ''abc123''),
            (''client_id'', PStr ''0''), (''service_id'', PStr ''unknown''),
            (''datetime_utc'', PDatetime 1717236000000000), (''status'', PStr ''pending''),
            (''notes'', PNone)])],
       next_id = 2, write_faults = []\<rparr>)"
proof -
  have v: "BookingRequest_validate plain_library jane_body = Inr jane_request"
    by (simp add: BookingRequest_validate_def BookingRequest_errors_def jane_body_def
        jane_request_def plain_library_def)
  have a: "available empty_store" by (simp add: empty_store_def)
  have f: "True \<notin> set (take 2 (write_faults empty_store))" by (simp add: empty_store_def)
  from create_booking_client_then_booking [OF v a f] v a f show ?thesis
    by (simp add: empty_store_def jane_request_def decimal.simps)
qed

text \<open>An instance of the theorem of claim C2 at the concrete inputs.\<close>

theorem limit_out_of_range_rejected_witness:
  "GET_api_masters plain_library None (Some 0) down_store = Inl (InvalidInput [''limit'']) \<and>
   GET_api_masters plain_library None (Some 101) down_store = Inl (InvalidInput [''limit'']) \<and>
   GET_api_masters plain_library (Some moscow) (Some 1) seeded_store = Inr [anna_summary] \<and>
   GET_api_bookings plain_library None (Some (- 5)) down_store = Inl (InvalidInput [''limit'']) \<and>
   GET_api_bookings plain_library None (Some 201) down_store = Inl (InvalidInput [''limit'']) \<and>
   GET_api_bookings plain_library None (Some 200) empty_store = Inr []"
proof -
  have b: "list_bookings plain_library None 200 empty_store = Inr []"
    by (simp add: list_bookings_def get_documents_def empty_store_def collection_def)
  show ?thesis
    using limit_out_of_range_rejected [of 0 plain_library None down_store None]
      limit_out_of_range_rejected [of 101 plain_library None down_store None]
      limit_out_of_range_rejected [of 1 plain_library "Some moscow" seeded_store None]
      limit_out_of_range_rejected [of "- 5" plain_library None down_store None]
      limit_out_of_range_rejected [of 201 plain_library None down_store None]
      limit_out_of_range_rejected [of 200 plain_library None empty_store None]
      list_moscow [of plain_library] b
    by simp
qed

lemma bad_master_errors:
  "Master_errors plain_library bad_master_body =
     [''name'', ''email'', ''avatar'', ''rating'', ''reviews_count'']"
  by (simp add: Master_errors_def bad_master_body_def plain_library_def opt_valid_def)

lemma bad_booking_errors:
  "BookingRequest_errors plain_library bad_booking_body =
     [''master_id'', ''name'', ''email'', ''datetime_utc'']"
  "BookingRequest_errors plain_library empty_booking_body =
     [''master_id'', ''name'', ''email'', ''datetime_utc'']"
  by (simp_all add: BookingRequest_errors_def bad_booking_body_def empty_booking_body_def
      plain_library_def)

text \<open>An instance of the theorem of claim C3 at the concrete inputs.\<close>

theorem invalid_body_rejected_before_store_witness:
  "email_str plain_library ''not-an-email'' = None \<and>
   mb_email bad_master_body = Some ''not-an-email'' \<and>
   POST_api_masters plain_library bad_master_body down_store =
     (Inl (InvalidInput [''name'', ''email'', ''avatar'', ''rating'', ''reviews_count'']), down_store) \<and>
   rb_email bad_booking_body = Some ''not-an-email'' \<and>
   POST_api_bookings plain_library bad_booking_body down_store =
     (Inl (InvalidInput [''master_id'', ''name'', ''email'', ''datetime_utc'']), down_store) \<and>
   rb_email empty_booking_body = None \<and>
   POST_api_bookings plain_library empty_booking_body down_store =
     (Inl (InvalidInput [''master_id'', ''name'', ''email'', ''datetime_utc'']), down_store)"
proof -
  have e: "email_str plain_library ''not-an-email'' = None"
    by (simp add: plain_library_def)
  have m: "mb_email bad_master_body = Some ''not-an-email''"
    "mb_name bad_master_body = None" "mb_avatar bad_master_body = Some ''ftp''"
    "mb_rating bad_master_body = Some 6" "mb_reviews_count bad_master_body = Some (- 1)"
    by (simp_all add: bad_master_body_def)
  have u: "http_url plain_library ''ftp'' = None" by (simp add: plain_library_def)
  have b: "rb_email bad_booking_body = Some ''not-an-email''"
    "rb_email empty_booking_body = None"
    by (simp_all add: bad_booking_body_def empty_booking_body_def)
  show ?thesis
    using invalid_body_rejected_before_store [of "''email''" plain_library bad_master_body down_store "''not-an-email''"
          "''ftp''" 6 "- 1" "''email''" bad_booking_body]
      invalid_body_rejected_before_store [of "''email''" plain_library bad_master_body down_store "''not-an-email''"
          "''ftp''" 6 "- 1" "''email''" empty_booking_body]
      e m u b bad_master_errors bad_booking_errors
    by simp
qed

lemma validate_plain_master:
  "Master_validate plain_library plain_master_body = Inr plain_master"
  by (simp add: Master_validate_def Master_errors_def opt_valid_def opt_norm_def
      plain_master_body_def plain_master_def)

text \<open>An instance of the theorem of claim C6 at the concrete inputs.\<close>

theorem Master_rating_reviews_bounds_witness:
  "Master_validate plain_library plain_master_body = Inr plain_master \<and>
   mb_rating plain_master_body = None \<and> m_rating plain_master = 0 \<and>
   mb_reviews_count plain_master_body = None \<and> m_reviews_count plain_master = 0 \<and>
   mb_skills plain_master_body = None \<and> m_skills plain_master = [] \<and>
   validate_all plain_library sample = Inr [anna, irina, maria] \<and>
   0 \<le> m_rating anna \<and> m_rating anna \<le> 5 \<and> 0 \<le> m_reviews_count anna \<and>
   0 \<le> m_rating maria \<and> m_rating maria \<le> 5 \<and> 0 \<le> m_reviews_count maria \<and>
   mb_rating bad_master_body = Some 6 \<and>
   POST_api_masters plain_library bad_master_body down_store =
     (Inl (InvalidInput [''name'', ''email'', ''avatar'', ''rating'', ''reviews_count'']), down_store)"
proof -
  have p: "mb_rating plain_master_body = None" "mb_reviews_count plain_master_body = None"
    "mb_skills plain_master_body = None"
    by (simp_all add: plain_master_body_def)
  have r: "mb_rating bad_master_body = Some 6" by (simp add: bad_master_body_def)
  have x: "POST_api_masters plain_library bad_master_body down_store =
     (Inl (InvalidInput [''name'', ''email'', ''avatar'', ''rating'', ''reviews_count'']), down_store)"
    by (simp add: POST_api_masters_def Master_validate_def bad_master_errors)
  show ?thesis
    using Master_rating_reviews_bounds [of plain_library plain_master_body plain_master "[anna, irina, maria]" down_store]
      Master_rating_reviews_bounds [of plain_library bad_master_body plain_master "[anna, irina, maria]" down_store]
      validate_plain_master validate_sample p r x
    by simp
qed

lemma available_eve_store: "available eve_store"
  by (simp add: eve_store_def)

lemma masters_of_eve_store:
  "collection eve_store ''master'' = [(''_id'', PObjectId ''0'') # to_document (EMaster plain_master)]"
  by (simp add: collection_def eve_store_def)

lemma serialize_eve:
  "serialize_master lib ((''_id'', PObjectId ''0'') # to_document (EMaster plain_master)) = Inr eve_summary"
  by (subst serialize_stored_master) (simp add: plain_master_def eve_summary_def)

lemma list_eve:
  "0 < limit \<Longrightarrow> list_masters lib None limit eve_store = Inr [eve_summary]"
  by (simp add: list_masters_def get_documents_def masters_of_eve_store matches_def
      serialize_eve available_eve_store take_Cons' del: to_document.simps)

lemma create_eve:
  "create_master plain_master empty_store = (Inr ''0'', eve_store)"
  by (simp add: create_master_def create_document_def empty_store_def eve_store_def
      decimal.simps del: to_document.simps)

text \<open>An instance of the theorem of claim C7 at the concrete inputs.\<close>

theorem list_masters_role_first_skill_witness:
  "list_masters plain_library None 2 seeded_store = Inr [anna_summary, irina_summary] \<and>
   dict_get ((''_id'', PObjectId ''0'') # to_document (EMaster anna)) ''skills'' = PList [PStr visagiste] \<and>
   mo_role anna_summary = Some visagiste \<and>
   list_masters plain_library None 1 eve_store = Inr [eve_summary] \<and>
   dict_get ((''_id'', PObjectId ''0'') # to_document (EMaster plain_master)) ''skills'' = PList [] \<and>
   mo_role eve_summary = None"
proof -
  have a: "dict_get ((''_id'', PObjectId ''0'') # to_document (EMaster anna)) ''skills'' =
      PList [PStr visagiste]"
    by (simp add: dict_get_def anna_def)
  have e: "dict_get ((''_id'', PObjectId ''0'') # to_document (EMaster plain_master)) ''skills'' =
      PList []"
    by (simp add: dict_get_def plain_master_def)
  have g2: "get_documents ''master'' (str_filter ''city'' None) 2 seeded_store =
      Inr [(''_id'', PObjectId ''0'') # to_document (EMaster anna),
           (''_id'', PObjectId ''1'') # to_document (EMaster irina)]"
    by (simp add: get_documents_def available_seeded_store masters_of_seeded_store matches_def
        del: to_document.simps)
  have g1: "get_documents ''master'' (str_filter ''city'' None) 1 eve_store =
      Inr [(''_id'', PObjectId ''0'') # to_document (EMaster plain_master)]"
    by (simp add: get_documents_def available_eve_store masters_of_eve_store matches_def
        del: to_document.simps)
  from list_masters_role_first_skill [where lib = plain_library and city = None and limit = 2 and st = seeded_store
      and outs = "[anna_summary, irina_summary]"
      and d = "(''_id'', PObjectId ''0'') # to_document (EMaster plain_master)"
      and i = "''0''" and m = plain_master]
    list_two [of plain_library] g2 a
  have ra: "mo_role anna_summary = Some visagiste"
    by (auto simp del: to_document.simps)
  from list_masters_role_first_skill [where lib = plain_library and city = None and limit = 1 and st = eve_store
      and outs = "[eve_summary]"
      and d = "(''_id'', PObjectId ''0'') # to_document (EMaster plain_master)"
      and i = "''0''" and m = plain_master]
    list_eve [of 1 plain_library] g1 e
  have re: "mo_role eve_summary = None"
    by (auto simp del: to_document.simps)
  from ra re a e list_two [of plain_library] list_eve [of 1 plain_library]
  show ?thesis by (simp del: to_document.simps)
qed


lemma unavailable_down_store: "\<not> available down_store"
  by (simp add: down_store_def)

lemma create_document_down:
  "create_document kind e down_store = (Inl StoreUnavailable, down_store)"
  by (simp add: create_document_def unavailable_down_store)

lemma get_documents_down:
  "get_documents kind flt limit down_store = Inl StoreUnavailable"
  by (simp add: get_documents_def unavailable_down_store)

text \<open>An instance of the theorem of claim C8 at the concrete inputs.\<close>

theorem gateway_failure_internal_error_witness:
  "create_booking jane_request faulty_store =
     (Inl (InternalError StoreWriteError),
      \<lparr>available = True,
       documents =
         [(''client'', (''_id'', PObjectId ''0'') #
             to_document (EClient (Client_new ''Jane Doe'' ''jane@example.com'')))],
       next_id = 1, write_faults = []\<rparr>) \<and>
   create_booking jane_request down_store = (Inl (InternalError StoreUnavailable), down_store) \<and>
   list_masters plain_library None 12 down_store = Inl (InternalError StoreUnavailable) \<and>
   create_master plain_master down_store = (Inl (InternalError StoreUnavailable), down_store) \<and>
   seed_demo_data plain_library down_store = (Inl (InternalError StoreUnavailable), down_store) \<and>
   list_bookings plain_library None 50 down_store = Inl (InternalError StoreUnavailable)"
proof -
  let ?c = "EClient (Client_new (rq_name jane_request) (rq_email jane_request))"
  let ?st1 = "\<lparr>available = True, documents = [(''client'', (''_id'', PObjectId ''0'') # to_document ?c)],
       next_id = 1, write_faults = [True]\<rparr>"
  let ?st2 = "\<lparr>available = True, documents = [(''client'', (''_id'', PObjectId ''0'') # to_document ?c)],
       next_id = 1, write_faults = []\<rparr>"
  have i1: "create_document ''client'' ?c faulty_store = (Inr ''0'', ?st1)"
    by (simp add: create_document_def faulty_store_def decimal.simps del: to_document.simps)
  have i2: "create_document ''booking''
      (EBooking \<lparr>b_master_id = rq_master_id jane_request, b_client_id = ''0'',
                 b_service_id = ''unknown'', b_datetime_utc = rq_datetime_utc jane_request,
                 b_status = ''pending'', b_notes = rq_notes jane_request\<rparr>) ?st1 =
      (Inl StoreWriteError, ?st2)"
    by (simp add: create_document_def)
  have n: "rq_name jane_request = ''Jane Doe''" "rq_email jane_request = ''jane@example.com''"
    by (simp_all add: jane_request_def)
  have s: "create_all [anna, irina, maria] down_store = (Inl StoreUnavailable, down_store)"
    by (simp add: create_document_down)
  from gateway_failure_internal_error [of jane_request faulty_store "''0''" ?st1 StoreWriteError ?st2] i1 i2 n
  have a: "create_booking jane_request faulty_store =
     (Inl (InternalError StoreWriteError),
      \<lparr>available = True,
       documents =
         [(''client'', (''_id'', PObjectId ''0'') #
             to_document (EClient (Client_new ''Jane Doe'' ''jane@example.com'')))],
       next_id = 1, write_faults = []\<rparr>)"
    by (simp del: to_document.simps)
  from gateway_failure_internal_error [of jane_request down_store "''0''" down_store StoreUnavailable down_store
      None 12 plain_library plain_master "[anna, irina, maria]" None]
    create_document_down get_documents_down validate_sample s
  have b: "create_booking jane_request down_store = (Inl (InternalError StoreUnavailable), down_store) \<and>
   list_masters plain_library None 12 down_store = Inl (InternalError StoreUnavailable) \<and>
   create_master plain_master down_store = (Inl (InternalError StoreUnavailable), down_store) \<and>
   seed_demo_data plain_library down_store = (Inl (InternalError StoreUnavailable), down_store)"
    by (simp del: to_document.simps)
  from gateway_failure_internal_error [of jane_request down_store "''0''" down_store StoreUnavailable down_store
      None 50 plain_library plain_master "[anna, irina, maria]" None]
    get_documents_down
  have c: "list_bookings plain_library None 50 down_store = Inl (InternalError StoreUnavailable)"
    by (simp del: to_document.simps)
  from a b c show ?thesis by (simp del: to_document.simps)
qed

text \<open>An instance of the theorem of claim C9 at the concrete inputs.\<close>

theorem empty_filter_is_absent_witness:
  "list_masters plain_library (Some []) 2 seeded_store = Inr [anna_summary, irina_summary] \<and>
   list_masters plain_library None 2 seeded_store = Inr [anna_summary, irina_summary] \<and>
   GET_api_bookings plain_library (Some []) (Some 0) seeded_store =
     GET_api_bookings plain_library None (Some 0) seeded_store"
  using empty_filter_is_absent [of plain_library 2 seeded_store "Some 0"] list_two [of plain_library]
  by simp

text \<open>An instance of the theorem of claim C10 at the concrete inputs.\<close>

theorem created_master_unverified_witness:
  "create_master plain_master empty_store = (Inr ''0'', eve_store) \<and>
   list_masters plain_library None 12 eve_store = Inr [eve_summary] \<and>
   mo_verified eve_summary = False \<and>
   seed_demo_data plain_library empty_store = (Inr (3, [''0'', ''1'', ''2'']), seeded_store) \<and>
   list_masters plain_library None 2 seeded_store = Inr [anna_summary, irina_summary] \<and>
   mo_verified anna_summary = False \<and> mo_verified irina_summary = False"
proof -
  have g2: "get_documents ''master'' (str_filter ''city'' None) 2 seeded_store =
      Inr [(''_id'', PObjectId ''0'') # to_document (EMaster anna),
           (''_id'', PObjectId ''1'') # to_document (EMaster irina)]"
    by (simp add: get_documents_def available_seeded_store masters_of_seeded_store matches_def
        del: to_document.simps)
  have g1: "get_documents ''master'' (str_filter ''city'' None) 12 eve_store =
      Inr [(''_id'', PObjectId ''0'') # to_document (EMaster plain_master)]"
    by (simp add: get_documents_def available_eve_store masters_of_eve_store matches_def
        del: to_document.simps)
  from created_master_unverified [where st = eve_store and lib = plain_library and city = None and limit = 12
      and outs = "[eve_summary]" and m = plain_master and new_id = "''1''" and st' = eve_store
      and n = 3 and ids = "[]" and i = "''0''"]
    list_eve [of 12 plain_library] g1
  have e: "mo_verified eve_summary = False"
    by (simp add: stored_master_no_verified del: to_document.simps)
  from created_master_unverified [where st = seeded_store and lib = plain_library and city = None and limit = 2
      and outs = "[anna_summary, irina_summary]" and m = plain_master and new_id = "''3''"
      and st' = seeded_store and n = 3 and ids = "[]" and i = "''0''"]
    list_two [of plain_library] g2
  have a: "mo_verified anna_summary = False \<and> mo_verified irina_summary = False"
    by (simp add: stored_master_no_verified del: to_document.simps)
  from created_master_unverified [where m = plain_master and st = empty_store and new_id = "''0''" and st' = eve_store
      and lib = plain_library and n = 3 and ids = "[''0'', ''1'', ''2'']" and city = None
      and limit = 12 and outs = "[]" and i = "''0''"]
    create_eve
  have d: "\<exists>d. documents eve_store = documents empty_store @ [(''master'', d)] \<and>
      dict_get d ''_id'' = PObjectId ''0'' \<and> map_of d ''verified'' = None"
    by blast
  from created_master_unverified [where m = plain_master and st = empty_store and new_id = "''0''"
      and st' = seeded_store and lib = plain_library and n = 3 and ids = "[''0'', ''1'', ''2'']"
      and city = None and limit = 12 and outs = "[]" and i = "''0''"]
    seed_empty_store
  have s: "\<exists>ds. documents seeded_store = documents empty_store @ map (Pair ''master'') ds \<and>
      length ds = 3 \<and>
      map (\<lambda>d. dict_get d ''_id'') ds = map PObjectId [''0'', ''1'', ''2''] \<and>
      (\<forall>d \<in> set ds. map_of d ''verified'' = None)"
    by blast
  from d s e a create_eve seed_empty_store list_eve [of 12 plain_library]
    list_two [of plain_library]
  show ?thesis by simp
qed


text \<open>An instance of the theorem of claim C5 at the concrete inputs.\<close>

theorem get_schema_six_kinds_witness:
  "map fst get_schema =
     [''master'', ''client'', ''service'', ''booking'', ''review'', ''portfolioitem''] \<and>
   map_of get_schema ''review'' = Some (model_json_schema Review_model) \<and>
   js_required (model_json_schema Review_model) = [''master_id'', ''client_id'', ''rating'']"
proof -
  from get_schema_six_kinds have g: "get_schema = map (\<lambda>nm. (fst nm, model_json_schema (snd nm))) ALL_SCHEMAS"
    by blast
  have r: "js_required (model_json_schema Review_model) = [''master_id'', ''client_id'', ''rating'']"
    by (simp add: model_json_schema_def Review_model_def fld_def)
  show ?thesis
    by (simp add: g ALL_SCHEMAS_def r)
qed

end
